theory Spec2Isabelle
  imports Main "HOL-Library.Word"
begin

unbundle bit_operations_syntax

section \<open>The arena allocator (jmalloc.c) as state-passing functions\<close>

text \<open>
  The allocator keeps five globals and writes block headers and arena headers into
  memory it obtained from the operating system.  The model is for an LP64 target:
  \<^verbatim>\<open>size_t\<close> and pointers are 64-bit words (arithmetic wraps), \<^verbatim>\<open>int\<close> is a 32-bit
  word, the null pointer is the address 0.

  Memory is a typed store with one map per header field: \<open>blk_size s b\<close> is
  \<^verbatim>\<open>b->size\<close> for a \<^verbatim>\<open>block_header_t *b\<close>, \<open>blk_next s b\<close> is \<^verbatim>\<open>b->next\<close>, and so
  on.  A write through a header pointer changes that one field at that one address, so
  two header pointers alias exactly when they are equal, and header reads always go to
  these maps.  \<open>bytes s a\<close> is the byte at address \<open>a\<close> as the caller of the allocator
  sees it: \<^verbatim>\<open>memcpy\<close> writes it, and so does every header write, which stores the
  little-endian bytes of the value at the field's offset in the LP64 layout of the
  struct (\<^verbatim>\<open>size\<close> at 0, \<^verbatim>\<open>free\<close> at 8, \<^verbatim>\<open>next\<close> at 16, \<^verbatim>\<open>prev\<close> at 24;
  for an arena \<^verbatim>\<open>size\<close> at 0, \<^verbatim>\<open>next\<close> at 8, \<^verbatim>\<open>prev\<close> at 16, \<^verbatim>\<open>first_block\<close> at
  24).  Memory handed out by \<^verbatim>\<open>mmap\<close> is zero-filled, so every store starts as all
  zero.

  The typed store is what the program reads as long as no block header overlaps another
  header or a payload the caller writes.  Where that fails, the bytes are still what the
  program stored, and \<open>memory_view\<close> (below) reads every header field back from them.
\<close>

type_synonym addr = "64 word"
type_synonym size_t = "64 word"

record state =
  g_arenas :: addr
  g_head :: addr
  g_tail :: addr
  g_total_bytes :: size_t
  g_free_bytes :: size_t
  blk_size :: "addr \<Rightarrow> size_t"
  blk_free :: "addr \<Rightarrow> 32 word"
  blk_next :: "addr \<Rightarrow> addr"
  blk_prev :: "addr \<Rightarrow> addr"
  arena_size :: "addr \<Rightarrow> size_t"
  arena_next :: "addr \<Rightarrow> addr"
  arena_prev :: "addr \<Rightarrow> addr"
  first_block :: "addr \<Rightarrow> addr"
  bytes :: "addr \<Rightarrow> 8 word"
  mapped :: "(addr \<times> size_t) list"

text \<open>
  The field \<open>mapped\<close> is the kernel's side of \<^verbatim>\<open>mmap\<close>: the regions (base, length)
  granted so far.  The allocator never reads it.
\<close>

definition NULL :: addr where
  "NULL = 0"

definition init_state :: state where
  "init_state =
     \<lparr>g_arenas = 0, g_head = 0, g_tail = 0, g_total_bytes = 0, g_free_bytes = 0,
      blk_size = (\<lambda>_. 0), blk_free = (\<lambda>_. 0), blk_next = (\<lambda>_. 0), blk_prev = (\<lambda>_. 0),
      arena_size = (\<lambda>_. 0), arena_next = (\<lambda>_. 0), arena_prev = (\<lambda>_. 0),
      first_block = (\<lambda>_. 0), bytes = (\<lambda>_. 0), mapped = []\<rparr>"

text \<open>A block of C statements: the state transformers run in the order written.\<close>

definition run :: "(state \<Rightarrow> state) list \<Rightarrow> state \<Rightarrow> state" where
  "run stmts s = fold (\<lambda>stmt t. stmt t) stmts s"

subsection \<open>Field and global writes\<close>

text \<open>\<open>store_bytes a n v\<close> puts the \<open>n\<close> low bytes of \<open>v\<close> at \<open>a\<close>, \<open>a + 1\<close>, ...\<close>

definition store_bytes :: "addr \<Rightarrow> size_t \<Rightarrow> 64 word \<Rightarrow> (addr \<Rightarrow> 8 word) \<Rightarrow> (addr \<Rightarrow> 8 word)" where
  "store_bytes a n v m =
     (\<lambda>x. if x - a < n then ucast (drop_bit (8 * unat (x - a)) v) else m x)"

definition set_size :: "addr \<Rightarrow> size_t \<Rightarrow> state \<Rightarrow> state" where
  "set_size b v s =
     s\<lparr>blk_size := (blk_size s)(b := v), bytes := store_bytes b 8 v (bytes s)\<rparr>"

definition set_free :: "addr \<Rightarrow> 32 word \<Rightarrow> state \<Rightarrow> state" where
  "set_free b v s =
     s\<lparr>blk_free := (blk_free s)(b := v), bytes := store_bytes (b + 8) 4 (ucast v) (bytes s)\<rparr>"

definition set_next :: "addr \<Rightarrow> addr \<Rightarrow> state \<Rightarrow> state" where
  "set_next b v s =
     s\<lparr>blk_next := (blk_next s)(b := v), bytes := store_bytes (b + 16) 8 v (bytes s)\<rparr>"

definition set_prev :: "addr \<Rightarrow> addr \<Rightarrow> state \<Rightarrow> state" where
  "set_prev b v s =
     s\<lparr>blk_prev := (blk_prev s)(b := v), bytes := store_bytes (b + 24) 8 v (bytes s)\<rparr>"

definition set_arena_size :: "addr \<Rightarrow> size_t \<Rightarrow> state \<Rightarrow> state" where
  "set_arena_size a v s =
     s\<lparr>arena_size := (arena_size s)(a := v), bytes := store_bytes a 8 v (bytes s)\<rparr>"

definition set_arena_next :: "addr \<Rightarrow> addr \<Rightarrow> state \<Rightarrow> state" where
  "set_arena_next a v s =
     s\<lparr>arena_next := (arena_next s)(a := v), bytes := store_bytes (a + 8) 8 v (bytes s)\<rparr>"

definition set_arena_prev :: "addr \<Rightarrow> addr \<Rightarrow> state \<Rightarrow> state" where
  "set_arena_prev a v s =
     s\<lparr>arena_prev := (arena_prev s)(a := v), bytes := store_bytes (a + 16) 8 v (bytes s)\<rparr>"

definition set_first_block :: "addr \<Rightarrow> addr \<Rightarrow> state \<Rightarrow> state" where
  "set_first_block a v s =
     s\<lparr>first_block := (first_block s)(a := v), bytes := store_bytes (a + 24) 8 v (bytes s)\<rparr>"

definition set_g_arenas :: "addr \<Rightarrow> state \<Rightarrow> state" where
  "set_g_arenas v s = s\<lparr>g_arenas := v\<rparr>"

definition set_g_head :: "addr \<Rightarrow> state \<Rightarrow> state" where
  "set_g_head v s = s\<lparr>g_head := v\<rparr>"

definition set_g_tail :: "addr \<Rightarrow> state \<Rightarrow> state" where
  "set_g_tail v s = s\<lparr>g_tail := v\<rparr>"

definition set_g_total_bytes :: "size_t \<Rightarrow> state \<Rightarrow> state" where
  "set_g_total_bytes v s = s\<lparr>g_total_bytes := v\<rparr>"

definition set_g_free_bytes :: "size_t \<Rightarrow> state \<Rightarrow> state" where
  "set_g_free_bytes v s = s\<lparr>g_free_bytes := v\<rparr>"

subsection \<open>The operating system\<close>

text \<open>
  What the operating system answers during one call of the public interface (every
  public operation calls \<^verbatim>\<open>mmap\<close> at most once): the value of
  \<^verbatim>\<open>sysconf(_SC_PAGESIZE)\<close>, a \<^verbatim>\<open>long\<close>, and the value \<^verbatim>\<open>mmap\<close> returns,
  \<^verbatim>\<open>MAP_FAILED\<close> = \<^verbatim>\<open>(void*)-1\<close> on failure.  The POSIX branch of the platform
  layer is the one modelled.
\<close>

record provider =
  sysconf_pagesize :: "64 word"
  mmap_result :: addr

definition MAP_FAILED :: addr where
  "MAP_FAILED = - 1"

definition os_pagesize :: "provider \<Rightarrow> size_t" where
  "os_pagesize env =
     (if sint (sysconf_pagesize env) \<le> 0 then 4096 else sysconf_pagesize env)"

definition mmap :: "provider \<Rightarrow> state \<Rightarrow> size_t \<Rightarrow> addr \<times> state" where
  "mmap env s len =
     (if mmap_result env = MAP_FAILED then (MAP_FAILED, s)
      else (mmap_result env, s\<lparr>mapped := (mmap_result env, len) # mapped s\<rparr>))"

definition page_round :: "provider \<Rightarrow> size_t \<Rightarrow> size_t" where
  "page_round env n = (n + os_pagesize env - 1) AND NOT (os_pagesize env - 1)"

definition os_alloc :: "provider \<Rightarrow> state \<Rightarrow> size_t \<Rightarrow> addr \<times> state" where
  "os_alloc env s n =
     (case mmap env s (page_round env n) of
        (p, s') \<Rightarrow> (if p = MAP_FAILED then NULL else p, s'))"

subsection \<open>Constants and header sizes\<close>

definition ALIGNMENT :: size_t where
  "ALIGNMENT = 8"

definition ALIGN_UP :: "size_t \<Rightarrow> size_t \<Rightarrow> size_t" where
  "ALIGN_UP x a = (x + (a - 1)) AND NOT (a - 1)"

definition ARENA_MIN_SIZE :: size_t where
  "ARENA_MIN_SIZE = push_bit 20 1"

text \<open>\<^verbatim>\<open>sizeof(block_header_t)\<close> and \<^verbatim>\<open>sizeof(arena_header_t)\<close> on LP64.\<close>

definition sizeof_block_header :: size_t where
  "sizeof_block_header = 32"

definition sizeof_arena_header :: size_t where
  "sizeof_arena_header = 32"

definition header_size :: size_t where
  "header_size = ALIGN_UP sizeof_block_header ALIGNMENT"

definition arena_header_size :: size_t where
  "arena_header_size = ALIGN_UP sizeof_arena_header ALIGNMENT"

subsection \<open>Helpers: first fit, split, coalesce, arena installation\<close>

text \<open>
  \<^verbatim>\<open>for (cur = g_head; cur; cur = cur->next)\<close> follows the \<^verbatim>\<open>next\<close> pointers for
  as long as they are not null; on a cyclic chain it never ends, which is the value
  \<open>None\<close>.
\<close>

partial_function (option) first_fit_from :: "state \<Rightarrow> addr \<Rightarrow> size_t \<Rightarrow> addr option" where
  "first_fit_from s cur sz =
     (if cur = NULL then Some NULL
      else if blk_free s cur \<noteq> 0 \<and> blk_size s cur \<ge> sz then Some cur
      else first_fit_from s (blk_next s cur) sz)"

definition find_first_fit :: "state \<Rightarrow> size_t \<Rightarrow> addr option" where
  "find_first_fit s sz = first_fit_from s (g_head s) sz"

definition split_block :: "state \<Rightarrow> addr \<Rightarrow> size_t \<Rightarrow> state" where
  "split_block s blk req_size =
     (let remain = blk_size s blk - req_size;
          n = blk + header_size + req_size
      in run [set_size blk req_size,
              set_size n (remain - header_size),
              set_free n 1,
              set_prev n blk,
              (\<lambda>t. set_next n (blk_next t blk) t),
              (\<lambda>t. if blk_next t n \<noteq> NULL then set_prev (blk_next t n) n t
                    else set_g_tail n t),
              set_next blk n,
              (\<lambda>t. set_g_free_bytes (g_free_bytes t + blk_size t n) t)] s)"

text \<open>
  The body of \<^verbatim>\<open>if (blk->next && blk->next->free)\<close> in \<^verbatim>\<open>coalesce\<close>; the same four
  statements, with another last line, are the forward merge of \<^verbatim>\<open>j_realloc\<close>.
\<close>

definition coalesce :: "state \<Rightarrow> addr \<Rightarrow> addr \<times> state" where
  "coalesce s blk =
     (let s1 =
            (if blk_next s blk \<noteq> NULL \<and> blk_free s (blk_next s blk) \<noteq> 0 then
               (let n = blk_next s blk
                in run [(\<lambda>t. set_size blk (blk_size t blk + (header_size + blk_size t n)) t),
                        (\<lambda>t. set_next blk (blk_next t n) t),
                        (\<lambda>t. if blk_next t blk \<noteq> NULL then set_prev (blk_next t blk) blk t
                              else set_g_tail blk t),
                        (\<lambda>t. set_g_free_bytes (g_free_bytes t + header_size) t)] s)
             else s)
      in if blk_prev s1 blk \<noteq> NULL \<and> blk_free s1 (blk_prev s1 blk) \<noteq> 0 then
           (let p = blk_prev s1 blk
            in (p, run [(\<lambda>t. set_size p (blk_size t p + (header_size + blk_size t blk)) t),
                        (\<lambda>t. set_next p (blk_next t blk) t),
                        (\<lambda>t. if blk_next t p \<noteq> NULL then set_prev (blk_next t p) p t
                              else set_g_tail p t),
                        (\<lambda>t. set_g_free_bytes (g_free_bytes t + header_size) t)] s1))
         else (blk, s1))"

definition request_space :: "provider \<Rightarrow> state \<Rightarrow> size_t \<Rightarrow> addr \<times> state" where
  "request_space env s sz =
     (let need = header_size + sz;
          arena_total = arena_header_size
                          + (if need > ARENA_MIN_SIZE then need else ARENA_MIN_SIZE)
      in case os_alloc env s arena_total of
           (mem, s0) \<Rightarrow>
             if mem = NULL then (NULL, s0)
             else
               (let a = mem;
                    blk = mem + arena_header_size;
                    used = arena_header_size + header_size + sz;
                    f = blk + header_size + sz
                in (blk,
                    run [set_arena_size a arena_total,
                         set_arena_prev a NULL,
                         (\<lambda>t. set_arena_next a (g_arenas t) t),
                         (\<lambda>t. if g_arenas t \<noteq> NULL then set_arena_prev (g_arenas t) a t else t),
                         set_g_arenas a,
                         (\<lambda>t. set_prev blk (g_tail t) t),
                         set_next blk NULL,
                         set_free blk 0,
                         set_size blk sz,
                         (\<lambda>t. if g_head t = NULL then set_g_head blk t else t),
                         (\<lambda>t. if g_tail t \<noteq> NULL then set_next (g_tail t) blk t else t),
                         set_g_tail blk,
                         set_first_block a blk,
                         (\<lambda>t. set_g_total_bytes (g_total_bytes t + arena_total) t),
                         (\<lambda>t. if arena_total \<ge> used + header_size + ALIGNMENT then
                                 run [set_size f ((arena_total - used) - header_size),
                                      set_free f 1,
                                      set_prev f blk,
                                      (\<lambda>u. set_next f (blk_next u blk) u),
                                      (\<lambda>u. if blk_next u f \<noteq> NULL
                                            then set_prev (blk_next u f) f u
                                            else set_g_tail f u),
                                      set_next blk f,
                                      (\<lambda>u. set_g_free_bytes (g_free_bytes u + blk_size u f) u)] t
                               else t)] s0)))"

subsection \<open>The public interface\<close>

definition j_malloc :: "provider \<Rightarrow> state \<Rightarrow> size_t \<Rightarrow> (addr \<times> state) option" where
  "j_malloc env s size0 =
     (if size0 = 0 then Some (NULL, s)
      else
        (let sz = ALIGN_UP size0 ALIGNMENT in
         case find_first_fit s sz of
           None \<Rightarrow> None
         | Some blk \<Rightarrow>
             if blk = NULL then
               (case request_space env s sz of
                  (blk', s') \<Rightarrow>
                    if blk' = NULL then Some (NULL, s')
                    else Some (blk' + header_size, s'))
             else
               (let old_size = blk_size s blk
                in Some (blk + header_size,
                     run [(\<lambda>t. if old_size \<ge> sz + header_size + ALIGNMENT
                                then split_block t blk sz else t),
                          set_free blk 0,
                          (\<lambda>t. set_g_free_bytes (g_free_bytes t - old_size) t)] s))))"

definition j_free :: "state \<Rightarrow> addr \<Rightarrow> state" where
  "j_free s ptr =
     (if ptr = NULL then s
      else
        (let blk = ptr - header_size in
         if blk_free s blk \<noteq> 0 then s
         else
           run [set_free blk 1,
                (\<lambda>t. set_g_free_bytes (g_free_bytes t + blk_size t blk) t),
                (\<lambda>t. snd (coalesce t blk))] s))"

text \<open>
  \<^verbatim>\<open>memcpy(dest, src, n)\<close>: the \<open>n\<close> bytes at \<open>dest\<close> become the \<open>n\<close> bytes that were
  at \<open>src\<close>.
\<close>

definition memcpy :: "addr \<Rightarrow> addr \<Rightarrow> size_t \<Rightarrow> state \<Rightarrow> state" where
  "memcpy dest src n s =
     s\<lparr>bytes := (\<lambda>a. if a - dest < n then bytes s (src + (a - dest)) else bytes s a)\<rparr>"

definition j_realloc :: "provider \<Rightarrow> state \<Rightarrow> addr \<Rightarrow> size_t \<Rightarrow> (addr \<times> state) option" where
  "j_realloc env s ptr new_size0 =
     (if ptr = NULL then j_malloc env s new_size0
      else if new_size0 = 0 then Some (NULL, j_free s ptr)
      else
        (let new_size = ALIGN_UP new_size0 ALIGNMENT;
             blk = ptr - header_size;
             old_size = blk_size s blk
         in if old_size \<ge> new_size then
              Some (ptr, if old_size \<ge> new_size + header_size + ALIGNMENT
                         then split_block s blk new_size else s)
            else if blk_next s blk \<noteq> NULL \<and> blk_free s (blk_next s blk) \<noteq> 0
                    \<and> old_size + header_size + blk_size s (blk_next s blk) \<ge> new_size then
              (let n = blk_next s blk
               in Some (blk + header_size,
                    run [(\<lambda>t. set_size blk (blk_size t blk + (header_size + blk_size t n)) t),
                         (\<lambda>t. set_next blk (blk_next t n) t),
                         (\<lambda>t. if blk_next t blk \<noteq> NULL then set_prev (blk_next t blk) blk t
                               else set_g_tail blk t),
                         (\<lambda>t. set_g_free_bytes (g_free_bytes t - blk_size t n) t),
                         (\<lambda>t. if blk_size t blk \<ge> new_size + header_size + ALIGNMENT
                               then split_block t blk new_size else t)] s))
            else
              (case j_malloc env s new_size of
                 None \<Rightarrow> None
               | Some (new_ptr, s1) \<Rightarrow>
                   if new_ptr = NULL then Some (NULL, s1)
                   else
                     (let keep = (if old_size < new_size then old_size else new_size)
                      in Some (new_ptr,
                           run [memcpy new_ptr ptr keep,
                                (\<lambda>t. j_free t ptr)] s1)))))"

text \<open>
  The two statistics functions are written in the same state-passing style as the rest
  of the interface: they return the value and the state they leave behind.
\<close>

definition j_heap_bytes :: "state \<Rightarrow> size_t \<times> state" where
  "j_heap_bytes s = (g_total_bytes s, s)"

partial_function (option) free_bytes_from :: "state \<Rightarrow> addr \<Rightarrow> size_t \<Rightarrow> size_t option" where
  "free_bytes_from s cur sum0 =
     (if cur = NULL then Some sum0
      else free_bytes_from s (blk_next s cur)
             (if blk_free s cur \<noteq> 0 then sum0 + blk_size s cur else sum0))"

definition j_free_bytes :: "state \<Rightarrow> (size_t \<times> state) option" where
  "j_free_bytes s =
     (case free_bytes_from s (g_head s) 0 of
        None \<Rightarrow> None
      | Some sum0 \<Rightarrow> Some (sum0, s))"

subsection \<open>A concrete operating system for examples\<close>

text \<open>Pages of 4096 bytes; \<^verbatim>\<open>mmap\<close> answers with the address \<open>a\<close>.\<close>

definition page4k :: "addr \<Rightarrow> provider" where
  "page4k a = \<lparr>sysconf_pagesize = 4096, mmap_result = a\<rparr>"

text \<open>
  Two arenas far apart: the state after \<^verbatim>\<open>j_malloc(16)\<close>, answered with an arena at
  \<open>0x70000000\<close>, and \<^verbatim>\<open>j_malloc(2097152)\<close>, answered with an arena at \<open>0x90000000\<close>;
  and the state in which \<^verbatim>\<open>j_free\<close> of the second pointer calls \<^verbatim>\<open>coalesce\<close>.
\<close>

definition two_arenas :: state where
  "two_arenas =
     snd (request_space (page4k 0x90000000)
            (snd (request_space (page4k 0x70000000) init_state 16)) 2097152)"

definition two_arenas_releasing :: state where
  "two_arenas_releasing =
     run [set_free 0x90000020 1,
          (\<lambda>t. set_g_free_bytes (g_free_bytes t + blk_size t 0x90000020) t)] two_arenas"

subsection \<open>Sequences of calls\<close>

text \<open>
  What the operating system may answer.  A page size is a power of two, at least 8.  A
  region that \<^verbatim>\<open>mmap\<close> grants is not empty, starts on a page boundary and not at
  address 0, lies inside the 64-bit address space and shares no address with a region
  granted earlier (the allocator never unmaps one).
\<close>

definition page_ok :: "provider \<Rightarrow> bool" where
  "page_ok env \<longleftrightarrow> (\<exists>k\<in>{3..<64}. os_pagesize env = 2 ^ k)"

definition region_ok :: "provider \<Rightarrow> (addr \<times> size_t) list \<Rightarrow> addr \<times> size_t \<Rightarrow> bool" where
  "region_ok env old r \<longleftrightarrow>
     fst r \<noteq> NULL \<and> snd r \<noteq> 0
     \<and> unat (fst r) mod unat (os_pagesize env) = 0
     \<and> unat (fst r) + unat (snd r) \<le> 2 ^ 64
     \<and> (\<forall>r'\<in>set old. unat (fst r) + unat (snd r) \<le> unat (fst r')
                        \<or> unat (fst r') + unat (snd r') \<le> unat (fst r))"

definition grants_ok :: "provider \<Rightarrow> state \<Rightarrow> state \<Rightarrow> bool" where
  "grants_ok env s s' \<longleftrightarrow>
     page_ok env
     \<and> (mapped s' = mapped s
        \<or> (case mapped s' of [] \<Rightarrow> False | r # rs \<Rightarrow> rs = mapped s \<and> region_ok env rs r))"

text \<open>
  One call of the public interface.  The state is paired with the set of addresses the
  allocator has returned so far; \<^verbatim>\<open>j_free\<close> and \<^verbatim>\<open>j_realloc\<close> are called with the
  null pointer or with one of those.
\<close>

inductive step :: "state \<times> addr set \<Rightarrow> state \<times> addr set \<Rightarrow> bool" where
  step_malloc:
    "j_malloc env s n = Some (p, s') \<Longrightarrow> grants_ok env s s'
     \<Longrightarrow> step (s, P) (s', insert p P)"
| step_free:
    "ptr = NULL \<or> ptr \<in> P \<Longrightarrow> step (s, P) (j_free s ptr, P)"
| step_realloc:
    "ptr = NULL \<or> ptr \<in> P \<Longrightarrow> j_realloc env s ptr n = Some (p, s')
     \<Longrightarrow> grants_ok env s s' \<Longrightarrow> step (s, P) (s', insert p P)"
| step_heap_bytes:
    "j_heap_bytes s = (v, s') \<Longrightarrow> step (s, P) (s', P)"
| step_free_bytes:
    "j_free_bytes s = Some (v, s') \<Longrightarrow> step (s, P) (s', P)"

definition reachable :: "state \<times> addr set \<Rightarrow> bool" where
  "reachable c \<longleftrightarrow> step\<^sup>*\<^sup>* (init_state, {}) c"

text \<open>The addresses the operating system has granted.\<close>

definition covered :: "(addr \<times> size_t) list \<Rightarrow> nat set" where
  "covered rs = (\<Union>r\<in>set rs. {unat (fst r) ..< unat (fst r) + unat (snd r)})"

text \<open>
  The block chain from \<open>cur\<close>, when it ends: \<open>chain s cur bs\<close> says that following
  \<^verbatim>\<open>next\<close> from \<open>cur\<close> visits exactly the blocks \<open>bs\<close> and then reaches the null
  pointer.
\<close>

fun chain :: "state \<Rightarrow> addr \<Rightarrow> addr list \<Rightarrow> bool" where
  "chain s cur [] \<longleftrightarrow> cur = NULL"
| "chain s cur (b # bs) \<longleftrightarrow> cur \<noteq> NULL \<and> cur = b \<and> chain s (blk_next s b) bs"

subsection \<open>Memory as the program reads it\<close>

text \<open>
  \<open>load_le n m a\<close> is the little-endian value of the \<open>n\<close> bytes at \<open>a\<close>, the reading
  that goes with \<open>store_bytes\<close>.  \<open>memory_view s\<close> is the state \<open>s\<close> with every header field
  read from the bytes at the field's offset: what \<^verbatim>\<open>b->size\<close>, \<^verbatim>\<open>b->free\<close>,
  \<^verbatim>\<open>b->next\<close> and \<^verbatim>\<open>b->prev\<close> evaluate to in the program for any address \<open>b\<close>,
  also when headers overlap.  \<open>caller_write a n v\<close> is the caller of the allocator
  storing the \<open>n\<close> low bytes of \<open>v\<close> at \<open>a\<close>.
\<close>

fun load_le :: "nat \<Rightarrow> (addr \<Rightarrow> 8 word) \<Rightarrow> addr \<Rightarrow> 64 word" where
  "load_le 0 m a = 0"
| "load_le (Suc n) m a = ucast (m a) OR push_bit 8 (load_le n m (a + 1))"

definition memory_view :: "state \<Rightarrow> state" where
  "memory_view s =
     s\<lparr>blk_size := (\<lambda>b. load_le 8 (bytes s) b),
       blk_free := (\<lambda>b. ucast (load_le 4 (bytes s) (b + 8))),
       blk_next := (\<lambda>b. load_le 8 (bytes s) (b + 16)),
       blk_prev := (\<lambda>b. load_le 8 (bytes s) (b + 24)),
       arena_size := (\<lambda>a. load_le 8 (bytes s) a),
       arena_next := (\<lambda>a. load_le 8 (bytes s) (a + 8)),
       arena_prev := (\<lambda>a. load_le 8 (bytes s) (a + 16)),
       first_block := (\<lambda>a. load_le 8 (bytes s) (a + 24))\<rparr>"

definition caller_write :: "addr \<Rightarrow> size_t \<Rightarrow> 64 word \<Rightarrow> state \<Rightarrow> state" where
  "caller_write a n v s = s\<lparr>bytes := store_bytes a n v (bytes s)\<rparr>"

section \<open>Basic facts\<close>

lemma run_Nil: "run [] s = s"
  by (simp add: run_def)

lemma run_Cons: "run (stmt # stmts) s = run stmts (stmt s)"
  by (simp add: run_def)

lemmas run_simps = run_Nil run_Cons

lemma header_size_eq: "header_size = 32"
  by (simp add: header_size_def sizeof_block_header_def ALIGN_UP_def ALIGNMENT_def)

lemma arena_header_size_eq: "arena_header_size = 32"
  by (simp add: arena_header_size_def sizeof_arena_header_def ALIGN_UP_def ALIGNMENT_def)

lemma ARENA_MIN_SIZE_eq: "ARENA_MIN_SIZE = 1048576"
  by (simp add: ARENA_MIN_SIZE_def)

lemmas consts_eval = header_size_eq arena_header_size_eq ARENA_MIN_SIZE_eq ALIGNMENT_def NULL_def
  MAP_FAILED_def

text \<open>What each write leaves in each component of the state.\<close>

lemma set_size_sel [simp]:
  "g_arenas (set_size b v s) = g_arenas s"
  "g_head (set_size b v s) = g_head s"
  "g_tail (set_size b v s) = g_tail s"
  "g_total_bytes (set_size b v s) = g_total_bytes s"
  "g_free_bytes (set_size b v s) = g_free_bytes s"
  "blk_size (set_size b v s) = (blk_size s)(b := v)"
  "blk_free (set_size b v s) = blk_free s"
  "blk_next (set_size b v s) = blk_next s"
  "blk_prev (set_size b v s) = blk_prev s"
  "arena_size (set_size b v s) = arena_size s"
  "arena_next (set_size b v s) = arena_next s"
  "arena_prev (set_size b v s) = arena_prev s"
  "first_block (set_size b v s) = first_block s"
  "bytes (set_size b v s) = store_bytes b 8 v (bytes s)"
  "mapped (set_size b v s) = mapped s"
  by (simp_all add: set_size_def)

lemma set_free_sel [simp]:
  "g_arenas (set_free b v s) = g_arenas s"
  "g_head (set_free b v s) = g_head s"
  "g_tail (set_free b v s) = g_tail s"
  "g_total_bytes (set_free b v s) = g_total_bytes s"
  "g_free_bytes (set_free b v s) = g_free_bytes s"
  "blk_size (set_free b v s) = blk_size s"
  "blk_free (set_free b v s) = (blk_free s)(b := v)"
  "blk_next (set_free b v s) = blk_next s"
  "blk_prev (set_free b v s) = blk_prev s"
  "arena_size (set_free b v s) = arena_size s"
  "arena_next (set_free b v s) = arena_next s"
  "arena_prev (set_free b v s) = arena_prev s"
  "first_block (set_free b v s) = first_block s"
  "bytes (set_free b v s) = store_bytes (b + 8) 4 (ucast v) (bytes s)"
  "mapped (set_free b v s) = mapped s"
  by (simp_all add: set_free_def)

lemma set_next_sel [simp]:
  "g_arenas (set_next b v s) = g_arenas s"
  "g_head (set_next b v s) = g_head s"
  "g_tail (set_next b v s) = g_tail s"
  "g_total_bytes (set_next b v s) = g_total_bytes s"
  "g_free_bytes (set_next b v s) = g_free_bytes s"
  "blk_size (set_next b v s) = blk_size s"
  "blk_free (set_next b v s) = blk_free s"
  "blk_next (set_next b v s) = (blk_next s)(b := v)"
  "blk_prev (set_next b v s) = blk_prev s"
  "arena_size (set_next b v s) = arena_size s"
  "arena_next (set_next b v s) = arena_next s"
  "arena_prev (set_next b v s) = arena_prev s"
  "first_block (set_next b v s) = first_block s"
  "bytes (set_next b v s) = store_bytes (b + 16) 8 v (bytes s)"
  "mapped (set_next b v s) = mapped s"
  by (simp_all add: set_next_def)

lemma set_prev_sel [simp]:
  "g_arenas (set_prev b v s) = g_arenas s"
  "g_head (set_prev b v s) = g_head s"
  "g_tail (set_prev b v s) = g_tail s"
  "g_total_bytes (set_prev b v s) = g_total_bytes s"
  "g_free_bytes (set_prev b v s) = g_free_bytes s"
  "blk_size (set_prev b v s) = blk_size s"
  "blk_free (set_prev b v s) = blk_free s"
  "blk_next (set_prev b v s) = blk_next s"
  "blk_prev (set_prev b v s) = (blk_prev s)(b := v)"
  "arena_size (set_prev b v s) = arena_size s"
  "arena_next (set_prev b v s) = arena_next s"
  "arena_prev (set_prev b v s) = arena_prev s"
  "first_block (set_prev b v s) = first_block s"
  "bytes (set_prev b v s) = store_bytes (b + 24) 8 v (bytes s)"
  "mapped (set_prev b v s) = mapped s"
  by (simp_all add: set_prev_def)

lemma set_arena_size_sel [simp]:
  "g_arenas (set_arena_size b v s) = g_arenas s"
  "g_head (set_arena_size b v s) = g_head s"
  "g_tail (set_arena_size b v s) = g_tail s"
  "g_total_bytes (set_arena_size b v s) = g_total_bytes s"
  "g_free_bytes (set_arena_size b v s) = g_free_bytes s"
  "blk_size (set_arena_size b v s) = blk_size s"
  "blk_free (set_arena_size b v s) = blk_free s"
  "blk_next (set_arena_size b v s) = blk_next s"
  "blk_prev (set_arena_size b v s) = blk_prev s"
  "arena_size (set_arena_size b v s) = (arena_size s)(b := v)"
  "arena_next (set_arena_size b v s) = arena_next s"
  "arena_prev (set_arena_size b v s) = arena_prev s"
  "first_block (set_arena_size b v s) = first_block s"
  "bytes (set_arena_size b v s) = store_bytes b 8 v (bytes s)"
  "mapped (set_arena_size b v s) = mapped s"
  by (simp_all add: set_arena_size_def)

lemma set_arena_next_sel [simp]:
  "g_arenas (set_arena_next b v s) = g_arenas s"
  "g_head (set_arena_next b v s) = g_head s"
  "g_tail (set_arena_next b v s) = g_tail s"
  "g_total_bytes (set_arena_next b v s) = g_total_bytes s"
  "g_free_bytes (set_arena_next b v s) = g_free_bytes s"
  "blk_size (set_arena_next b v s) = blk_size s"
  "blk_free (set_arena_next b v s) = blk_free s"
  "blk_next (set_arena_next b v s) = blk_next s"
  "blk_prev (set_arena_next b v s) = blk_prev s"
  "arena_size (set_arena_next b v s) = arena_size s"
  "arena_next (set_arena_next b v s) = (arena_next s)(b := v)"
  "arena_prev (set_arena_next b v s) = arena_prev s"
  "first_block (set_arena_next b v s) = first_block s"
  "bytes (set_arena_next b v s) = store_bytes (b + 8) 8 v (bytes s)"
  "mapped (set_arena_next b v s) = mapped s"
  by (simp_all add: set_arena_next_def)

lemma set_arena_prev_sel [simp]:
  "g_arenas (set_arena_prev b v s) = g_arenas s"
  "g_head (set_arena_prev b v s) = g_head s"
  "g_tail (set_arena_prev b v s) = g_tail s"
  "g_total_bytes (set_arena_prev b v s) = g_total_bytes s"
  "g_free_bytes (set_arena_prev b v s) = g_free_bytes s"
  "blk_size (set_arena_prev b v s) = blk_size s"
  "blk_free (set_arena_prev b v s) = blk_free s"
  "blk_next (set_arena_prev b v s) = blk_next s"
  "blk_prev (set_arena_prev b v s) = blk_prev s"
  "arena_size (set_arena_prev b v s) = arena_size s"
  "arena_next (set_arena_prev b v s) = arena_next s"
  "arena_prev (set_arena_prev b v s) = (arena_prev s)(b := v)"
  "first_block (set_arena_prev b v s) = first_block s"
  "bytes (set_arena_prev b v s) = store_bytes (b + 16) 8 v (bytes s)"
  "mapped (set_arena_prev b v s) = mapped s"
  by (simp_all add: set_arena_prev_def)

lemma set_first_block_sel [simp]:
  "g_arenas (set_first_block b v s) = g_arenas s"
  "g_head (set_first_block b v s) = g_head s"
  "g_tail (set_first_block b v s) = g_tail s"
  "g_total_bytes (set_first_block b v s) = g_total_bytes s"
  "g_free_bytes (set_first_block b v s) = g_free_bytes s"
  "blk_size (set_first_block b v s) = blk_size s"
  "blk_free (set_first_block b v s) = blk_free s"
  "blk_next (set_first_block b v s) = blk_next s"
  "blk_prev (set_first_block b v s) = blk_prev s"
  "arena_size (set_first_block b v s) = arena_size s"
  "arena_next (set_first_block b v s) = arena_next s"
  "arena_prev (set_first_block b v s) = arena_prev s"
  "first_block (set_first_block b v s) = (first_block s)(b := v)"
  "bytes (set_first_block b v s) = store_bytes (b + 24) 8 v (bytes s)"
  "mapped (set_first_block b v s) = mapped s"
  by (simp_all add: set_first_block_def)

lemma set_g_arenas_sel [simp]:
  "g_arenas (set_g_arenas v s) = v"
  "g_head (set_g_arenas v s) = g_head s"
  "g_tail (set_g_arenas v s) = g_tail s"
  "g_total_bytes (set_g_arenas v s) = g_total_bytes s"
  "g_free_bytes (set_g_arenas v s) = g_free_bytes s"
  "blk_size (set_g_arenas v s) = blk_size s"
  "blk_free (set_g_arenas v s) = blk_free s"
  "blk_next (set_g_arenas v s) = blk_next s"
  "blk_prev (set_g_arenas v s) = blk_prev s"
  "arena_size (set_g_arenas v s) = arena_size s"
  "arena_next (set_g_arenas v s) = arena_next s"
  "arena_prev (set_g_arenas v s) = arena_prev s"
  "first_block (set_g_arenas v s) = first_block s"
  "bytes (set_g_arenas v s) = bytes s"
  "mapped (set_g_arenas v s) = mapped s"
  by (simp_all add: set_g_arenas_def)

lemma set_g_head_sel [simp]:
  "g_arenas (set_g_head v s) = g_arenas s"
  "g_head (set_g_head v s) = v"
  "g_tail (set_g_head v s) = g_tail s"
  "g_total_bytes (set_g_head v s) = g_total_bytes s"
  "g_free_bytes (set_g_head v s) = g_free_bytes s"
  "blk_size (set_g_head v s) = blk_size s"
  "blk_free (set_g_head v s) = blk_free s"
  "blk_next (set_g_head v s) = blk_next s"
  "blk_prev (set_g_head v s) = blk_prev s"
  "arena_size (set_g_head v s) = arena_size s"
  "arena_next (set_g_head v s) = arena_next s"
  "arena_prev (set_g_head v s) = arena_prev s"
  "first_block (set_g_head v s) = first_block s"
  "bytes (set_g_head v s) = bytes s"
  "mapped (set_g_head v s) = mapped s"
  by (simp_all add: set_g_head_def)

lemma set_g_tail_sel [simp]:
  "g_arenas (set_g_tail v s) = g_arenas s"
  "g_head (set_g_tail v s) = g_head s"
  "g_tail (set_g_tail v s) = v"
  "g_total_bytes (set_g_tail v s) = g_total_bytes s"
  "g_free_bytes (set_g_tail v s) = g_free_bytes s"
  "blk_size (set_g_tail v s) = blk_size s"
  "blk_free (set_g_tail v s) = blk_free s"
  "blk_next (set_g_tail v s) = blk_next s"
  "blk_prev (set_g_tail v s) = blk_prev s"
  "arena_size (set_g_tail v s) = arena_size s"
  "arena_next (set_g_tail v s) = arena_next s"
  "arena_prev (set_g_tail v s) = arena_prev s"
  "first_block (set_g_tail v s) = first_block s"
  "bytes (set_g_tail v s) = bytes s"
  "mapped (set_g_tail v s) = mapped s"
  by (simp_all add: set_g_tail_def)

lemma set_g_total_bytes_sel [simp]:
  "g_arenas (set_g_total_bytes v s) = g_arenas s"
  "g_head (set_g_total_bytes v s) = g_head s"
  "g_tail (set_g_total_bytes v s) = g_tail s"
  "g_total_bytes (set_g_total_bytes v s) = v"
  "g_free_bytes (set_g_total_bytes v s) = g_free_bytes s"
  "blk_size (set_g_total_bytes v s) = blk_size s"
  "blk_free (set_g_total_bytes v s) = blk_free s"
  "blk_next (set_g_total_bytes v s) = blk_next s"
  "blk_prev (set_g_total_bytes v s) = blk_prev s"
  "arena_size (set_g_total_bytes v s) = arena_size s"
  "arena_next (set_g_total_bytes v s) = arena_next s"
  "arena_prev (set_g_total_bytes v s) = arena_prev s"
  "first_block (set_g_total_bytes v s) = first_block s"
  "bytes (set_g_total_bytes v s) = bytes s"
  "mapped (set_g_total_bytes v s) = mapped s"
  by (simp_all add: set_g_total_bytes_def)

lemma set_g_free_bytes_sel [simp]:
  "g_arenas (set_g_free_bytes v s) = g_arenas s"
  "g_head (set_g_free_bytes v s) = g_head s"
  "g_tail (set_g_free_bytes v s) = g_tail s"
  "g_total_bytes (set_g_free_bytes v s) = g_total_bytes s"
  "g_free_bytes (set_g_free_bytes v s) = v"
  "blk_size (set_g_free_bytes v s) = blk_size s"
  "blk_free (set_g_free_bytes v s) = blk_free s"
  "blk_next (set_g_free_bytes v s) = blk_next s"
  "blk_prev (set_g_free_bytes v s) = blk_prev s"
  "arena_size (set_g_free_bytes v s) = arena_size s"
  "arena_next (set_g_free_bytes v s) = arena_next s"
  "arena_prev (set_g_free_bytes v s) = arena_prev s"
  "first_block (set_g_free_bytes v s) = first_block s"
  "bytes (set_g_free_bytes v s) = bytes s"
  "mapped (set_g_free_bytes v s) = mapped s"
  by (simp_all add: set_g_free_bytes_def)

lemma memcpy_sel [simp]:
  "g_arenas (memcpy d src n s) = g_arenas s"
  "g_head (memcpy d src n s) = g_head s"
  "g_tail (memcpy d src n s) = g_tail s"
  "g_total_bytes (memcpy d src n s) = g_total_bytes s"
  "g_free_bytes (memcpy d src n s) = g_free_bytes s"
  "blk_size (memcpy d src n s) = blk_size s"
  "blk_free (memcpy d src n s) = blk_free s"
  "blk_next (memcpy d src n s) = blk_next s"
  "blk_prev (memcpy d src n s) = blk_prev s"
  "arena_size (memcpy d src n s) = arena_size s"
  "arena_next (memcpy d src n s) = arena_next s"
  "arena_prev (memcpy d src n s) = arena_prev s"
  "first_block (memcpy d src n s) = first_block s"
  "mapped (memcpy d src n s) = mapped s"
  by (simp_all add: memcpy_def)

lemma init_state_sel [simp]:
  "g_arenas init_state = 0"
  "g_head init_state = 0"
  "g_tail init_state = 0"
  "g_total_bytes init_state = 0"
  "g_free_bytes init_state = 0"
  "blk_size init_state = (\<lambda>_. 0)"
  "blk_free init_state = (\<lambda>_. 0)"
  "blk_next init_state = (\<lambda>_. 0)"
  "blk_prev init_state = (\<lambda>_. 0)"
  "arena_size init_state = (\<lambda>_. 0)"
  "arena_next init_state = (\<lambda>_. 0)"
  "arena_prev init_state = (\<lambda>_. 0)"
  "first_block init_state = (\<lambda>_. 0)"
  "bytes init_state = (\<lambda>_. 0)"
  "mapped init_state = []"
  by (simp_all add: init_state_def)

text \<open>The two loops, one step at a time.\<close>

lemma first_fit_from_null: "first_fit_from s 0 sz = Some 0"
  by (subst first_fit_from.simps) (simp add: NULL_def)

lemma first_fit_from_hit:
  "cur \<noteq> 0 \<Longrightarrow> blk_free s cur \<noteq> 0 \<Longrightarrow> sz \<le> blk_size s cur
   \<Longrightarrow> first_fit_from s cur sz = Some cur"
  by (subst first_fit_from.simps) (simp add: NULL_def)

lemma first_fit_from_skip:
  "cur \<noteq> 0 \<Longrightarrow> blk_free s cur = 0 \<or> \<not> sz \<le> blk_size s cur
   \<Longrightarrow> first_fit_from s cur sz = first_fit_from s (blk_next s cur) sz"
  by (subst first_fit_from.simps) (auto simp add: NULL_def)

lemma page4k_sel [simp]: "sysconf_pagesize (page4k a) = 4096" "mmap_result (page4k a) = a"
  by (simp_all add: page4k_def)

lemma page_round_4k: "page_round (page4k a) n = (n + 4095) AND NOT 4095"
  by (simp add: page_round_def os_pagesize_def add.commute)

lemma os_alloc_eval:
  "os_alloc env s n =
     (if mmap_result env = MAP_FAILED then (NULL, s)
      else (mmap_result env, s\<lparr>mapped := (mmap_result env, page_round env n) # mapped s\<rparr>))"
  by (simp add: os_alloc_def mmap_def)

lemma if_greater_max: "(if m < a then a else m) = max a (m::'a::linorder)"
  by (auto simp add: max_def)

lemmas sel_if =
  if_distrib [of g_arenas] if_distrib [of g_head] if_distrib [of g_tail]
  if_distrib [of g_total_bytes] if_distrib [of g_free_bytes]
  if_distrib [of blk_size] if_distrib [of blk_free] if_distrib [of blk_next]
  if_distrib [of blk_prev] if_distrib [of arena_size] if_distrib [of arena_next]
  if_distrib [of arena_prev] if_distrib [of first_block] if_distrib [of bytes]
  if_distrib [of mapped]

subsection \<open>Blocks of statements, one statement at a time\<close>

lemma run_inv:
  "list_all (\<lambda>stmt. \<forall>t. I t \<longrightarrow> I (stmt t)) stmts \<Longrightarrow> I s \<Longrightarrow> I (run stmts s)"
  by (induction stmts arbitrary: s) (simp_all add: run_simps)

lemma run_frame:
  "list_all (\<lambda>stmt. \<forall>t. sel (stmt t) = sel t) stmts \<Longrightarrow> sel (run stmts s) = sel s"
  by (induction stmts arbitrary: s) (simp_all add: run_simps)

text \<open>One statement of the block, the one at index \<open>k\<close>, changes the component.\<close>

lemma run_upd_at:
  assumes "k < length stmts"
    and "\<And>t. sel ((stmts ! k) t) = F (sel t)"
    and "\<And>i t. i < length stmts \<Longrightarrow> i \<noteq> k \<Longrightarrow> sel ((stmts ! i) t) = sel t"
  shows "sel (run stmts s) = F (sel s)"
  using assms
proof (induction stmts arbitrary: k s)
  case Nil
  then show ?case by simp
next
  case (Cons stmt stmts)
  show ?case
  proof (cases k)
    case 0
    have "list_all (\<lambda>stmt. \<forall>t. sel (stmt t) = sel t) stmts"
      unfolding list_all_length
    proof (intro allI impI)
      fix i t assume "i < length stmts"
      with Cons.prems(3) [of "Suc i" t] 0
      show "sel ((stmts ! i) t) = sel t" by simp
    qed
    then have "sel (run stmts (stmt s)) = sel (stmt s)"
      by (rule run_frame)
    with Cons.prems(2) [of s] 0 show ?thesis by (simp add: run_simps)
  next
    case (Suc k')
    have "sel (run stmts (stmt s)) = F (sel (stmt s))"
    proof (rule Cons.IH [of k'])
      show "k' < length stmts" using Cons.prems(1) Suc by simp
      show "sel ((stmts ! k') t) = F (sel t)" for t using Cons.prems(2) [of t] Suc by simp
      show "sel ((stmts ! i) t) = sel t" if "i < length stmts" "i \<noteq> k'" for i t
        using Cons.prems(3) [of "Suc i" t] Suc that by simp
    qed
    moreover have "sel (stmt s) = sel s"
      using Cons.prems(3) [of 0 s] Suc by simp
    ultimately show ?thesis by (simp add: run_simps)
  qed
qed

lemmas frame_mapped = run_frame [of mapped]
lemmas frame_total = run_frame [of g_total_bytes]

section \<open>Growth: what a new arena asks of the operating system and what is counted\<close>

lemma request_space_fst:
  "fst (request_space env s sz)
     = (if mmap_result env = MAP_FAILED \<or> mmap_result env = NULL then NULL
        else mmap_result env + arena_header_size)"
  by (simp add: request_space_def os_alloc_eval Let_def)

lemma request_space_failed:
  "mmap_result env = MAP_FAILED \<Longrightarrow> snd (request_space env s sz) = s"
  by (simp add: request_space_def os_alloc_eval Let_def)

lemma request_space_mapped:
  "mmap_result env \<noteq> MAP_FAILED \<Longrightarrow>
   mapped (snd (request_space env s sz))
     = (mmap_result env,
        page_round env (arena_header_size + max (header_size + sz) ARENA_MIN_SIZE)) # mapped s"
  by (simp add: request_space_def os_alloc_eval Let_def if_greater_max frame_mapped)

lemma request_space_total:
  assumes "mmap_result env \<noteq> MAP_FAILED" "mmap_result env \<noteq> NULL"
  shows "g_total_bytes (snd (request_space env s sz))
           = g_total_bytes s + (arena_header_size + max (header_size + sz) ARENA_MIN_SIZE)"
  using assms
  apply (simp add: request_space_def os_alloc_eval Let_def if_greater_max)
  apply (rule trans)
   apply (rule run_upd_at [where k = 13
            and F = "\<lambda>g. g + (arena_header_size + max (header_size + sz) ARENA_MIN_SIZE)"])
     apply simp
    apply simp
   apply (auto simp add: less_Suc_eq eval_nat_numeral frame_total sel_if cong: if_cong)[1]
  apply simp
  done

lemma j_malloc_grow:
  assumes "size0 \<noteq> 0" and "find_first_fit s (ALIGN_UP size0 ALIGNMENT) = Some NULL"
  shows "j_malloc env s size0
           = Some (if fst (request_space env s (ALIGN_UP size0 ALIGNMENT)) = NULL then NULL
                   else fst (request_space env s (ALIGN_UP size0 ALIGNMENT)) + header_size,
                   snd (request_space env s (ALIGN_UP size0 ALIGNMENT)))"
  using assms by (simp add: j_malloc_def split: prod.splits)

lemma find_first_fit_init: "find_first_fit init_state sz = Some NULL"
  by (simp add: find_first_fit_def first_fit_from_null NULL_def)

lemma first_malloc_16:
  "j_malloc (page4k 0x70000000) init_state 16
     = Some (0x70000040, snd (request_space (page4k 0x70000000) init_state 16))"
  by (simp add: j_malloc_grow find_first_fit_init request_space_fst ALIGN_UP_def ALIGNMENT_def
      MAP_FAILED_def NULL_def arena_header_size_eq header_size_eq)

text \<open>
  C4 (as amended).  Starting from the empty allocator, after a first successful
  allocation of \<open>size0 \<ge> 1\<close> bytes the total reported by \<^verbatim>\<open>j_heap_bytes\<close> is the arena
  header size plus the larger of (block header size + \<open>size0\<close> rounded up to 8) and
  1 MiB, in 64-bit arithmetic and not rounded to a page; the page rounding is applied
  only to the length handed to \<^verbatim>\<open>mmap\<close>, which is that same sum rounded up to the
  page size.
\<close>

theorem first_arena_total:
  assumes "size0 \<noteq> 0" and "j_malloc env init_state size0 = Some (p, s)" and "p \<noteq> NULL"
  shows "fst (j_heap_bytes s)
           = arena_header_size + max (header_size + ALIGN_UP size0 ALIGNMENT) ARENA_MIN_SIZE
         \<and> mapped s
           = [(mmap_result env,
               page_round env (arena_header_size
                 + max (header_size + ALIGN_UP size0 ALIGNMENT) ARENA_MIN_SIZE))]"
proof -
  let ?sz = "ALIGN_UP size0 ALIGNMENT"
  from assms have s: "s = snd (request_space env init_state ?sz)"
    and nn: "fst (request_space env init_state ?sz) \<noteq> NULL"
    by (auto simp add: j_malloc_def find_first_fit_def first_fit_from_null NULL_def
        split: prod.splits if_splits)
  from nn have ok: "mmap_result env \<noteq> MAP_FAILED" "mmap_result env \<noteq> NULL"
    by (auto simp add: request_space_fst split: if_splits)
  show ?thesis
    using request_space_total [OF ok, of init_state ?sz]
      request_space_mapped [OF ok(1), of init_state ?sz]
    by (simp add: s j_heap_bytes_def)
qed

theorem first_arena_total_witness:
  "(16::size_t) \<noteq> 0
   \<and> j_malloc (page4k 0x70000000) init_state 16
       = Some (0x70000040, snd (request_space (page4k 0x70000000) init_state 16))
   \<and> (0x70000040::addr) \<noteq> NULL
   \<and> fst (j_heap_bytes (snd (request_space (page4k 0x70000000) init_state 16))) = 1048608
   \<and> mapped (snd (request_space (page4k 0x70000000) init_state 16)) = [(0x70000000, 1052672)]"
proof -
  have nn: "(0x70000040::addr) \<noteq> NULL" by (simp add: NULL_def)
  from first_arena_total [OF _ first_malloc_16 nn]
  show ?thesis
    by (simp add: first_malloc_16 nn page_round_4k ARENA_MIN_SIZE_eq header_size_eq
        arena_header_size_eq ALIGN_UP_def ALIGNMENT_def)
qed

text \<open>
  C4 as stated fails: with 4096-byte pages the first allocation of 16 bytes leaves
  \<^verbatim>\<open>j_heap_bytes\<close> at 1048608 = 1 MiB + 32, while 1 MiB rounded up to the page size is
  1048576.
\<close>

theorem first_arena_not_page_rounded:
  "map_option (fst \<circ> j_heap_bytes \<circ> snd) (j_malloc (page4k 0x70000000) init_state 16)
     = Some 1048608
   \<and> page_round (page4k 0x70000000) ARENA_MIN_SIZE = 1048576"
  using request_space_total [of "page4k 0x70000000" init_state 16]
  by (simp add: first_malloc_16 j_heap_bytes_def page_round_4k ARENA_MIN_SIZE_eq header_size_eq
      arena_header_size_eq MAP_FAILED_def NULL_def)

section \<open>Alignment: what a single call returns\<close>

lemma dvd8_unat: "8 dvd (a::64 word) \<longleftrightarrow> unat a mod 8 = 0"
proof -
  have "(8::64 word) = 2 ^ 3" by simp
  then have "8 dvd a \<longleftrightarrow> (2 ^ 3 :: 64 word) udvd a"
    by (simp only: exp_dvd_iff_exp_udvd)
  also have "\<dots> \<longleftrightarrow> unat (2 ^ 3 :: 64 word) dvd unat a"
    by (rule udvd_iff_dvd)
  finally show ?thesis by (simp add: dvd_eq_mod_eq_0)
qed

lemma dvd8_consts [simp]:
  "8 dvd header_size" "8 dvd arena_header_size" "8 dvd ARENA_MIN_SIZE" "8 dvd ALIGNMENT"
  "(8::64 word) dvd NULL"
  by (simp_all add: header_size_eq arena_header_size_eq ARENA_MIN_SIZE_eq ALIGNMENT_def NULL_def
      dvd8_unat)

text \<open>
  The address a call returns is computed from \<^verbatim>\<open>g_head\<close>, the \<^verbatim>\<open>next\<close> links
  the search follows and the answer of \<^verbatim>\<open>mmap\<close>, before the call stores anything.
  If these are multiples of 8 (and so is the pointer handed to \<^verbatim>\<open>j_realloc\<close>), the
  address returned is a multiple of 8.
\<close>

lemma first_fit_from_links_aligned:
  assumes "first_fit_from s cur sz = Some b" and "8 dvd cur" and "\<forall>a. 8 dvd blk_next s a"
  shows "8 dvd b"
proof -
  have "(\<forall>a. 8 dvd blk_next s a) \<longrightarrow> 8 dvd cur \<longrightarrow> 8 dvd b"
    by (rule first_fit_from.raw_induct
          [where P = "\<lambda>s cur sz b. (\<forall>a. 8 dvd blk_next s a) \<longrightarrow> 8 dvd cur \<longrightarrow> 8 dvd b",
            OF _ assms(1)])
      (auto split: if_splits)
  with assms show ?thesis by simp
qed

lemma j_malloc_result_aligned:
  assumes "j_malloc env s n = Some (p, s')"
    and "8 dvd g_head s" and "\<forall>a. 8 dvd blk_next s a"
    and "mmap_result env = MAP_FAILED \<or> 8 dvd mmap_result env"
  shows "unat p mod 8 = 0"
proof -
  have "8 dvd p"
  proof (cases "n = 0")
    case True
    with assms(1) show ?thesis by (simp add: j_malloc_def)
  next
    case False
    let ?sz = "ALIGN_UP n ALIGNMENT"
    from assms(1) False obtain blk where ff: "find_first_fit s ?sz = Some blk"
      by (auto simp add: j_malloc_def Let_def split: option.splits)
    then have b: "8 dvd blk"
      using assms(2,3) by (auto simp add: find_first_fit_def intro: first_fit_from_links_aligned)
    show ?thesis
    proof (cases "blk = NULL")
      case True
      with assms(1) False ff
      have "p = (if fst (request_space env s ?sz) = NULL then NULL
                 else fst (request_space env s ?sz) + header_size)"
        by (auto simp add: j_malloc_def split: prod.splits if_splits)
      with assms(4) show ?thesis
        by (auto simp add: request_space_fst split: if_splits)
    next
      case nn: False
      with assms(1) False ff have "p = blk + header_size"
        by (auto simp add: j_malloc_def Let_def)
      with b show ?thesis by simp
    qed
  qed
  then show ?thesis by (simp add: dvd8_unat)
qed

lemma j_realloc_result_aligned:
  assumes "j_realloc env s ptr n = Some (q, s')" and "8 dvd ptr"
    and "8 dvd g_head s" and "\<forall>a. 8 dvd blk_next s a"
    and "mmap_result env = MAP_FAILED \<or> 8 dvd mmap_result env"
  shows "unat q mod 8 = 0"
proof -
  let ?new = "ALIGN_UP n ALIGNMENT"
  let ?blk = "ptr - header_size"
  consider (null) "ptr = NULL" | (zero) "ptr \<noteq> NULL" "n = 0"
    | (fit) "ptr \<noteq> NULL" "n \<noteq> 0" "?new \<le> blk_size s ?blk"
    | (merge) "ptr \<noteq> NULL" "n \<noteq> 0" "\<not> ?new \<le> blk_size s ?blk"
        "blk_next s ?blk \<noteq> NULL \<and> blk_free s (blk_next s ?blk) \<noteq> 0
         \<and> blk_size s ?blk + header_size + blk_size s (blk_next s ?blk) \<ge> ?new"
    | (move) "ptr \<noteq> NULL" "n \<noteq> 0" "\<not> ?new \<le> blk_size s ?blk"
        "\<not> (blk_next s ?blk \<noteq> NULL \<and> blk_free s (blk_next s ?blk) \<noteq> 0
         \<and> blk_size s ?blk + header_size + blk_size s (blk_next s ?blk) \<ge> ?new)"
    by blast
  then show ?thesis
  proof cases
    case null
    with assms show ?thesis by (auto simp add: j_realloc_def dest: j_malloc_result_aligned)
  next
    case zero
    with assms(1) show ?thesis by (auto simp add: j_realloc_def NULL_def)
  next
    case fit
    with assms(1,2) show ?thesis
      by (auto simp add: j_realloc_def Let_def dvd8_unat)
  next
    case merge
    with assms(1,2) show ?thesis
      by (auto simp add: j_realloc_def Let_def dvd8_unat)
  next
    case move
    with assms(1) obtain new_ptr s1 where m: "j_malloc env s ?new = Some (new_ptr, s1)"
      by (auto simp add: j_realloc_def Let_def split: option.splits)
    with move assms(1) have "q = new_ptr \<or> q = NULL"
      by (auto simp add: j_realloc_def Let_def split: if_splits)
    with j_malloc_result_aligned [OF m assms(3,4,5)] show ?thesis
      by (auto simp add: NULL_def)
  qed
qed

subsection \<open>A first allocation, concretely\<close>

lemma os_pagesize_4k: "os_pagesize (page4k a) = 4096"
  by (simp add: os_pagesize_def)

lemma page_ok_4k: "page_ok (page4k a)"
  unfolding page_ok_def os_pagesize_4k
  by (rule bexI [of _ 12]) simp_all

lemma first_malloc_16_fields:
  "g_head (snd (request_space (page4k 0x70000000) init_state 16)) = 0x70000020"
  "g_total_bytes (snd (request_space (page4k 0x70000000) init_state 16)) = 1048608"
  "blk_next (snd (request_space (page4k 0x70000000) init_state 16)) 0x70000020 = 0x70000050"
  "blk_next (snd (request_space (page4k 0x70000000) init_state 16)) 0x70000050 = 0"
  "blk_free (snd (request_space (page4k 0x70000000) init_state 16)) 0x70000020 = 0"
  "blk_free (snd (request_space (page4k 0x70000000) init_state 16)) 0x70000050 = 1"
  "blk_size (snd (request_space (page4k 0x70000000) init_state 16)) 0x70000020 = 16"
  "blk_size (snd (request_space (page4k 0x70000000) init_state 16)) 0x70000050 = 1048496"
  by (simp_all add: request_space_def os_alloc_eval Let_def consts_eval page_round_4k)
    (simp_all add: run_simps)

lemma first_malloc_16_globals:
  "g_tail (snd (request_space (page4k 0x70000000) init_state 16)) = 0x70000050"
  "g_arenas (snd (request_space (page4k 0x70000000) init_state 16)) = 0x70000000"
  "g_free_bytes (snd (request_space (page4k 0x70000000) init_state 16)) = 1048496"
  "blk_prev (snd (request_space (page4k 0x70000000) init_state 16)) 0x70000050 = 0x70000020"
  "mapped (snd (request_space (page4k 0x70000000) init_state 16)) = [(0x70000000, 1052672)]"
  by (simp_all add: request_space_def os_alloc_eval Let_def consts_eval page_round_4k)
    (simp_all add: run_simps)

section \<open>Release, resize in place, and what a shrink leaves behind\<close>

text \<open>
  \<^verbatim>\<open>j_free(NULL)\<close> changes nothing, and neither does \<^verbatim>\<open>j_free\<close> of a pointer whose
  block has its free flag set: both return before any store.
\<close>

lemma j_free_no_op:
  "j_free s NULL = s"
  "blk_free s (ptr - header_size) \<noteq> 0 \<Longrightarrow> j_free s ptr = s"
  by (simp_all add: j_free_def Let_def)


text \<open>
  C5.  \<^verbatim>\<open>j_realloc(ptr, new_size)\<close> with a non-null pointer and a non-zero size
  returns \<open>ptr\<close> itself whenever the block's payload size is at least the rounded size,
  or its chain successor exists, is free and the block's size plus the header size plus
  the successor's size (in \<^verbatim>\<open>size_t\<close> arithmetic, as the code computes it) is at least
  the rounded size.
\<close>

theorem in_place_resize_keeps_address:
  assumes "ptr \<noteq> NULL" and "new_size \<noteq> 0"
    and "ALIGN_UP new_size ALIGNMENT \<le> blk_size s (ptr - header_size)
         \<or> (blk_next s (ptr - header_size) \<noteq> NULL
            \<and> blk_free s (blk_next s (ptr - header_size)) \<noteq> 0
            \<and> ALIGN_UP new_size ALIGNMENT
                  \<le> blk_size s (ptr - header_size) + header_size
                       + blk_size s (blk_next s (ptr - header_size)))"
  shows "\<exists>s'. j_realloc env s ptr new_size = Some (ptr, s')"
  using assms by (auto simp add: j_realloc_def Let_def)

theorem in_place_resize_keeps_address_witness:
  "(0x1020::addr) \<noteq> NULL \<and> (8::size_t) \<noteq> 0
   \<and> ALIGN_UP 8 ALIGNMENT \<le> blk_size (set_size 0x1000 64 init_state) (0x1020 - header_size)
   \<and> (\<exists>s'. j_realloc (page4k 0) (set_size 0x1000 64 init_state) 0x1020 8 = Some (0x1020, s'))"
proof -
  have 1: "(0x1020::addr) \<noteq> NULL" by (simp add: NULL_def)
  have 2: "ALIGN_UP 8 ALIGNMENT \<le> blk_size (set_size 0x1000 64 init_state) (0x1020 - header_size)"
    by (simp add: ALIGN_UP_def consts_eval)
  from in_place_resize_keeps_address [OF 1 _ disjI1, OF _ 2, of "page4k 0"] 1 2
  show ?thesis by simp
qed

text \<open>
  C10.  Two chain-adjacent free blocks do occur: allocate 1024 bytes from the empty
  allocator and shrink the block to 64 bytes.  The split leaves a free remainder whose
  chain successor is the arena's free trailing block, and \<^verbatim>\<open>j_realloc\<close> does not
  coalesce.
\<close>

theorem shrink_leaves_adjacent_free_blocks:
  "\<exists>p s1 s2. j_malloc (page4k 0x70000000) init_state 1024 = Some (p, s1)
      \<and> j_realloc (page4k 0x70000000) s1 p 64 = Some (p, s2)
      \<and> blk_next s2 (p - header_size) \<noteq> NULL
      \<and> blk_free s2 (blk_next s2 (p - header_size)) \<noteq> 0
      \<and> blk_next s2 (blk_next s2 (p - header_size)) \<noteq> NULL
      \<and> blk_free s2 (blk_next s2 (blk_next s2 (p - header_size))) \<noteq> 0"
proof -
  define s1 where "s1 = snd (request_space (page4k 0x70000000) init_state 1024)"
  have s1: "blk_size s1 0x70000020 = 1024" "blk_next s1 0x70000020 = 0x70000440"
    "blk_free s1 0x70000440 = 1" "blk_next s1 0x70000440 = 0"
    unfolding s1_def
    by (simp_all add: request_space_def os_alloc_eval Let_def consts_eval page_round_4k)
      (simp_all add: run_simps)
  have m: "j_malloc (page4k 0x70000000) init_state 1024 = Some (0x70000040, s1)"
    by (simp add: j_malloc_grow find_first_fit_init request_space_fst ALIGN_UP_def
        consts_eval s1_def)
  have r: "j_realloc (page4k 0x70000000) s1 0x70000040 64
             = Some (0x70000040, split_block s1 0x70000020 64)"
    by (simp add: j_realloc_def Let_def ALIGN_UP_def consts_eval s1)
  have f: "blk_next (split_block s1 0x70000020 64) 0x70000020 = 0x70000080"
    "blk_free (split_block s1 0x70000020 64) 0x70000080 = 1"
    "blk_next (split_block s1 0x70000020 64) 0x70000080 = 0x70000440"
    "blk_free (split_block s1 0x70000020 64) 0x70000440 = 1"
    by (simp_all add: split_block_def Let_def consts_eval s1 run_simps)
  show ?thesis
    by (simp add: m r f consts_eval)
qed

section \<open>Coalescing follows the chain, not the addresses\<close>

text \<open>
  The four statements of a merge, with \<open>a\<close> the block that survives and \<open>b\<close> the block
  it absorbs, and what they leave in the chain.
\<close>

lemma merge_fields:
  fixes s a b
  defines "s' \<equiv> run [(\<lambda>t. set_size a (blk_size t a + (header_size + blk_size t b)) t),
                      (\<lambda>t. set_next a (blk_next t b) t),
                      (\<lambda>t. if blk_next t a \<noteq> NULL then set_prev (blk_next t a) a t
                            else set_g_tail a t),
                      (\<lambda>t. set_g_free_bytes (g_free_bytes t + header_size) t)] s"
  shows "blk_size s' = (blk_size s)(a := blk_size s a + (header_size + blk_size s b))"
    and "blk_next s' = (blk_next s)(a := blk_next s b)"
    and "blk_prev s' = (if blk_next s b \<noteq> NULL then (blk_prev s)(blk_next s b := a)
                        else blk_prev s)"
    and "g_tail s' = (if blk_next s b \<noteq> NULL then g_tail s else a)"
    and "g_free_bytes s' = g_free_bytes s + header_size"
    and "blk_free s' = blk_free s"
  unfolding s'_def by (simp_all add: run_simps)

text \<open>
  C8.  \<^verbatim>\<open>coalesce(blk)\<close>, for any block and any addresses: whether a neighbour is
  merged is decided by the chain alone, namely that \<^verbatim>\<open>blk->next\<close> (resp.
  \<^verbatim>\<open>blk->prev\<close>) is not null and its free flag is set.  The successor is merged first:
  \<open>blk\<close> grows by the header size plus the successor's size and takes over its
  \<^verbatim>\<open>next\<close> link.  Then the predecessor, if free, grows by the header size plus the
  (already grown) size of \<open>blk\<close>, takes over its \<^verbatim>\<open>next\<close> link and is the block
  returned.  The block after the survivor points back to it, or the survivor becomes
  \<^verbatim>\<open>g_tail\<close>; \<^verbatim>\<open>g_free_bytes\<close> grows by one header size per merge; no free flag
  changes.  Nothing compares addresses, so a neighbour in another arena is merged in
  the same way.  The hypotheses exclude a chain that loops back to \<open>blk\<close> within one
  or two links.
\<close>

theorem coalesce_merges_chain_neighbours:
  assumes "n = blk_next s blk" and "p = blk_prev s blk"
    and "fwd \<longleftrightarrow> n \<noteq> NULL \<and> blk_free s n \<noteq> 0"
    and "bwd \<longleftrightarrow> p \<noteq> NULL \<and> blk_free s p \<noteq> 0"
    and "p \<noteq> blk" and "fwd \<longrightarrow> blk_next s n \<noteq> blk"
    and "coalesce s blk = (r, s')"
  shows "r = (if bwd then p else blk)
       \<and> blk_size s' r
           = (if bwd then blk_size s p + (header_size
                  + (if fwd then blk_size s blk + (header_size + blk_size s n)
                     else blk_size s blk))
              else if fwd then blk_size s blk + (header_size + blk_size s n)
              else blk_size s blk)
       \<and> blk_next s' r = (if fwd then blk_next s n else n)
       \<and> (fwd \<or> bwd \<longrightarrow>
            (if blk_next s' r \<noteq> NULL then blk_prev s' (blk_next s' r) = r
             else g_tail s' = r))
       \<and> g_free_bytes s'
           = g_free_bytes s + (if fwd then header_size else 0)
               + (if bwd then header_size else 0)
       \<and> blk_free s' = blk_free s
       \<and> (\<not> fwd \<and> \<not> bwd \<longrightarrow> s' = s)"
proof -
  define s1 where
    "s1 = (if fwd then
             run [(\<lambda>t. set_size blk (blk_size t blk + (header_size + blk_size t n)) t),
                  (\<lambda>t. set_next blk (blk_next t n) t),
                  (\<lambda>t. if blk_next t blk \<noteq> NULL then set_prev (blk_next t blk) blk t
                        else set_g_tail blk t),
                  (\<lambda>t. set_g_free_bytes (g_free_bytes t + header_size) t)] s
           else s)"
  have prev1: "blk_prev s1 blk = p"
    using assms(2,6) by (auto simp add: s1_def merge_fields)
  have free1: "blk_free s1 = blk_free s"
    by (simp add: s1_def merge_fields)
  have size1: "blk_size s1 blk = (if fwd then blk_size s blk + (header_size + blk_size s n)
                                  else blk_size s blk)"
    "blk_size s1 p = blk_size s p"
    using assms(5) by (simp_all add: s1_def merge_fields)
  have next1: "blk_next s1 blk = (if fwd then blk_next s n else n)"
    using assms(1) by (simp add: s1_def merge_fields)
  have gfree1: "g_free_bytes s1 = g_free_bytes s + (if fwd then header_size else 0)"
    by (simp add: s1_def merge_fields)
  have link1: "fwd \<Longrightarrow> (if blk_next s1 blk \<noteq> NULL then blk_prev s1 (blk_next s1 blk) = blk
                          else g_tail s1 = blk)"
    by (simp add: s1_def merge_fields)
  have c: "coalesce s blk
             = (if bwd then
                  (p, run [(\<lambda>t. set_size p (blk_size t p + (header_size + blk_size t blk)) t),
                           (\<lambda>t. set_next p (blk_next t blk) t),
                           (\<lambda>t. if blk_next t p \<noteq> NULL then set_prev (blk_next t p) p t
                                 else set_g_tail p t),
                           (\<lambda>t. set_g_free_bytes (g_free_bytes t + header_size) t)] s1)
                else (blk, s1))"
    unfolding coalesce_def Let_def assms(1) [symmetric] assms(3) [symmetric]
      s1_def [symmetric] prev1 free1 assms(4) [symmetric]
    by simp
  show ?thesis
  proof (cases bwd)
    case True
    with c assms(7) have r: "r = p"
      and s': "s' = run [(\<lambda>t. set_size p (blk_size t p + (header_size + blk_size t blk)) t),
                           (\<lambda>t. set_next p (blk_next t blk) t),
                           (\<lambda>t. if blk_next t p \<noteq> NULL then set_prev (blk_next t p) p t
                                 else set_g_tail p t),
                           (\<lambda>t. set_g_free_bytes (g_free_bytes t + header_size) t)] s1"
      by simp_all
    show ?thesis
      unfolding r s' using True
      by (simp add: merge_fields size1 next1 gfree1 free1)
  next
    case False
    with c assms(7) have r: "r = blk" and s': "s' = s1"
      by simp_all
    show ?thesis
    proof (cases fwd)
      case True
      with link1 show ?thesis
        unfolding r s' using False by (simp add: size1 next1 gfree1 free1)
    next
      case nf: False
      then have "s1 = s" by (simp add: s1_def)
      then show ?thesis
        unfolding r s' using False nf assms(1) by simp
    qed
  qed
qed


text \<open>
  An instance across two arenas: the free trailing block of the arena at \<open>0x70000000\<close>
  absorbs the released block of the arena at \<open>0x90000000\<close>.
\<close>

lemma two_arenas_fields:
  "blk_next two_arenas 0x90000020 = 0"
  "blk_prev two_arenas 0x90000020 = 0x70000050"
  "blk_free two_arenas 0x90000020 = 0"
  "blk_free two_arenas 0x70000050 = 1"
  "blk_size two_arenas 0x90000020 = 2097152"
  "blk_size two_arenas 0x70000050 = 1048496"
  "blk_next two_arenas 0x70000050 = 0x90000020"
  "mapped two_arenas = [(0x90000000, 2101248), (0x70000000, 1052672)]"
  unfolding two_arenas_def
  by (simp_all add: request_space_def os_alloc_eval Let_def consts_eval page_round_4k)
    (simp_all add: run_simps first_malloc_16_fields first_malloc_16_globals)

lemma two_arenas_malloc:
  "j_malloc (page4k 0x90000000) (snd (request_space (page4k 0x70000000) init_state 16)) 2097152
     = Some (0x90000040, two_arenas)"
proof -
  let ?s = "snd (request_space (page4k 0x70000000) init_state 16)"
  have ff: "find_first_fit ?s 2097152 = Some NULL"
    by (simp add: find_first_fit_def first_malloc_16_fields first_fit_from_skip
        first_fit_from_null NULL_def)
  show ?thesis
    using j_malloc_grow [of 2097152 ?s "page4k 0x90000000"]
    by (simp add: ff request_space_fst ALIGN_UP_def consts_eval two_arenas_def)
qed

lemma two_arenas_free:
  "j_free two_arenas 0x90000040 = snd (coalesce two_arenas_releasing 0x90000020)"
  by (simp add: j_free_def Let_def consts_eval two_arenas_fields two_arenas_releasing_def
      run_simps)

lemma two_arenas_releasing_fields:
  "blk_next two_arenas_releasing 0x90000020 = 0"
  "blk_prev two_arenas_releasing 0x90000020 = 0x70000050"
  "blk_free two_arenas_releasing 0x70000050 = 1"
  "blk_size two_arenas_releasing 0x90000020 = 2097152"
  "blk_size two_arenas_releasing 0x70000050 = 1048496"
  "mapped two_arenas_releasing = [(0x90000000, 2101248), (0x70000000, 1052672)]"
  by (simp_all add: two_arenas_releasing_def run_simps two_arenas_fields)

theorem coalesce_merges_chain_neighbours_witness:
  "j_malloc (page4k 0x70000000) init_state 16
     = Some (0x70000040, snd (request_space (page4k 0x70000000) init_state 16))
   \<and> j_malloc (page4k 0x90000000) (snd (request_space (page4k 0x70000000) init_state 16))
         2097152
       = Some (0x90000040, two_arenas)
   \<and> j_free two_arenas 0x90000040 = snd (coalesce two_arenas_releasing 0x90000020)
   \<and> mapped two_arenas_releasing = [(0x90000000, 2101248), (0x70000000, 1052672)]
   \<and> blk_next two_arenas_releasing 0x90000020 = 0
   \<and> blk_prev two_arenas_releasing 0x90000020 = 0x70000050
   \<and> blk_free two_arenas_releasing 0x70000050 \<noteq> 0
   \<and> fst (coalesce two_arenas_releasing 0x90000020) = 0x70000050
   \<and> blk_size (snd (coalesce two_arenas_releasing 0x90000020)) 0x70000050 = 3145680
   \<and> blk_next (snd (coalesce two_arenas_releasing 0x90000020)) 0x70000050 = 0
   \<and> g_tail (snd (coalesce two_arenas_releasing 0x90000020)) = 0x70000050"
proof -
  have c: "coalesce two_arenas_releasing 0x90000020
             = (fst (coalesce two_arenas_releasing 0x90000020),
                snd (coalesce two_arenas_releasing 0x90000020))"
    by simp
  from coalesce_merges_chain_neighbours
         [of 0 two_arenas_releasing "0x90000020" "0x70000050" False True, OF _ _ _ _ _ _ c]
  show ?thesis
    by (clarsimp simp add: two_arenas_releasing_fields first_malloc_16 two_arenas_malloc
        two_arenas_free consts_eval)
qed

section \<open>A resize that has to move the block and cannot\<close>

lemma ALIGN_UP_idem: "ALIGN_UP (ALIGN_UP x ALIGNMENT) ALIGNMENT = ALIGN_UP x ALIGNMENT"
proof -
  define z :: "64 word" where "z = (x + 7) AND NOT 7"
  have z7: "z AND 7 = 0"
    by (simp add: z_def and.assoc)
  have zz: "z AND NOT 7 = z"
    by (simp add: z_def and.assoc)
  have "z + 7 = z OR 7"
    using z7 by (simp add: disjunctive_add_eq_or)
  then have "(z + 7) AND NOT 7 = z"
    using zz by (simp add: bit.conj_disj_distrib2)
  then show ?thesis
    by (simp add: ALIGN_UP_def ALIGNMENT_def z_def)
qed

lemma first_fit_from_free:
  assumes "first_fit_from s cur sz = Some b"
  shows "b = NULL \<or> blk_free s b \<noteq> 0"
  by (rule first_fit_from.raw_induct
        [where P = "\<lambda>s cur sz b. b = NULL \<or> blk_free s b \<noteq> 0", OF _ assms])
    (auto split: if_splits)

text \<open>
  When \<^verbatim>\<open>j_malloc\<close> of a non-zero size returns the null pointer: provided no free
  block header sits in the last 32 bytes of the address space and \<^verbatim>\<open>mmap\<close> either
  fails or grants a region that starts above address 0 and more than 64 bytes below the
  top of the address space, no free block was large enough and \<^verbatim>\<open>mmap\<close> failed.
\<close>

lemma j_malloc_null:
  assumes "n \<noteq> 0" and "j_malloc env s n = Some (NULL, s')"
    and "blk_free s (- header_size) = 0"
    and "mmap_result env = MAP_FAILED \<or> (0 < mmap_result env \<and> mmap_result env < - 64)"
  shows "find_first_fit s (ALIGN_UP n ALIGNMENT) = Some NULL \<and> mmap_result env = MAP_FAILED
         \<and> s' = s"
proof -
  let ?sz = "ALIGN_UP n ALIGNMENT"
  from assms(1,2) obtain blk where ff: "find_first_fit s ?sz = Some blk"
    by (auto simp add: j_malloc_def Let_def split: option.splits)
  have "blk = NULL"
  proof (rule ccontr)
    assume nn: "blk \<noteq> NULL"
    with assms(1,2) ff have "blk + header_size = NULL"
      by (auto simp add: j_malloc_def Let_def)
    then have "blk = - header_size"
      by (simp add: NULL_def eq_neg_iff_add_eq_0)
    moreover from ff nn have "blk_free s blk \<noteq> 0"
      using first_fit_from_free [of s "g_head s" ?sz blk] by (simp add: find_first_fit_def)
    ultimately show False using assms(3) by simp
  qed
  with assms(1,2) ff have s': "s' = snd (request_space env s ?sz)"
    and p: "(if fst (request_space env s ?sz) = NULL then NULL
             else fst (request_space env s ?sz) + header_size) = NULL"
    by (auto simp add: j_malloc_def split: prod.splits if_splits)
  have failed: "mmap_result env = MAP_FAILED"
  proof (rule ccontr)
    assume nf: "mmap_result env \<noteq> MAP_FAILED"
    with assms(4) have m: "0 < mmap_result env" "mmap_result env < - 64"
      by simp_all
    define r where "r = fst (request_space env s ?sz)"
    from m(1) nf have f: "r = mmap_result env + 32"
      by (simp add: r_def request_space_fst consts_eval)
    from p have "r = 0 \<or> r + 32 = 0"
      unfolding r_def [symmetric] by (simp add: NULL_def header_size_eq split: if_splits)
    then have "mmap_result env = - 32 \<or> mmap_result env = - 64"
      unfolding f by (auto simp add: eq_neg_iff_add_eq_0 add.commute)
    with m(2) show False
      by auto
  qed
  with \<open>blk = NULL\<close> ff s' show ?thesis
    by (simp add: request_space_failed)
qed

text \<open>
  C6.  When \<^verbatim>\<open>j_realloc\<close> of a non-null pointer and a non-zero size returns the null
  pointer, neither in-place branch applied (the call is on the path that allocates a
  fresh block), the fresh \<^verbatim>\<open>j_malloc\<close> of the rounded size returned null because no
  free block was large enough and \<^verbatim>\<open>mmap\<close> failed, and the state after the call is
  the state before it: every header field, every link, every payload byte and every
  counter.  The two hypotheses say that no payload address is the null address: no free
  block header sits in the last 32 bytes of the address space, and \<^verbatim>\<open>mmap\<close> fails or
  grants a region that starts above address 0 and more than 64 bytes below the top of
  the address space.
\<close>

theorem failed_relocation_leaves_state:
  assumes "ptr \<noteq> NULL" and "n \<noteq> 0"
    and "j_realloc env s ptr n = Some (NULL, s')"
    and "blk_free s (- header_size) = 0"
    and "mmap_result env = MAP_FAILED \<or> (0 < mmap_result env \<and> mmap_result env < - 64)"
  shows "\<not> ALIGN_UP n ALIGNMENT \<le> blk_size s (ptr - header_size)
       \<and> \<not> (blk_next s (ptr - header_size) \<noteq> NULL
            \<and> blk_free s (blk_next s (ptr - header_size)) \<noteq> 0
            \<and> ALIGN_UP n ALIGNMENT
                  \<le> blk_size s (ptr - header_size) + header_size
                       + blk_size s (blk_next s (ptr - header_size)))
       \<and> j_malloc env s (ALIGN_UP n ALIGNMENT) = Some (NULL, s)
       \<and> find_first_fit s (ALIGN_UP n ALIGNMENT) = Some NULL
       \<and> mmap_result env = MAP_FAILED
       \<and> s' = s"
proof -
  let ?new = "ALIGN_UP n ALIGNMENT"
  let ?blk = "ptr - header_size"
  have nofit: "\<not> ?new \<le> blk_size s ?blk"
    using assms(1,2,3) by (auto simp add: j_realloc_def Let_def)
  have nomerge: "\<not> (blk_next s ?blk \<noteq> NULL \<and> blk_free s (blk_next s ?blk) \<noteq> 0
         \<and> ?new \<le> blk_size s ?blk + header_size + blk_size s (blk_next s ?blk))"
    using assms(1,2,3) nofit by (auto simp add: j_realloc_def Let_def)
  from assms(1,2,3) nofit nomerge obtain new_ptr s1
    where m: "j_malloc env s ?new = Some (new_ptr, s1)"
    by (auto simp add: j_realloc_def Let_def split: option.splits)
  have null: "new_ptr = NULL"
  proof (rule ccontr)
    assume "new_ptr \<noteq> NULL"
    with assms(1,2,3) nofit nomerge m show False
      by (auto simp add: j_realloc_def Let_def)
  qed
  with assms(1,2,3) nofit nomerge m have s1: "s1 = s'"
    by (auto simp add: j_realloc_def Let_def)
  have "?new \<noteq> 0"
    using nofit by auto
  from j_malloc_null [OF this m [unfolded null s1] assms(4,5)]
  have "find_first_fit s ?new = Some NULL" "mmap_result env = MAP_FAILED" "s' = s"
    by (simp_all add: ALIGN_UP_idem)
  with nofit nomerge m null s1 show ?thesis
    by simp
qed

theorem failed_relocation_leaves_state_witness:
  "(0x70000040::addr) \<noteq> NULL \<and> (2097152::size_t) \<noteq> 0
   \<and> j_realloc (page4k MAP_FAILED) (snd (request_space (page4k 0x70000000) init_state 16))
         0x70000040 2097152
       = Some (NULL, snd (request_space (page4k 0x70000000) init_state 16))
   \<and> blk_free (snd (request_space (page4k 0x70000000) init_state 16)) (- header_size) = 0
   \<and> mmap_result (page4k MAP_FAILED) = MAP_FAILED
   \<and> \<not> ALIGN_UP 2097152 ALIGNMENT
           \<le> blk_size (snd (request_space (page4k 0x70000000) init_state 16))
                (0x70000040 - header_size)
   \<and> find_first_fit (snd (request_space (page4k 0x70000000) init_state 16))
         (ALIGN_UP 2097152 ALIGNMENT) = Some NULL"
proof -
  let ?s = "snd (request_space (page4k 0x70000000) init_state 16)"
  have 1: "(0x70000040::addr) \<noteq> NULL" by (simp add: NULL_def)
  have 2: "(2097152::size_t) \<noteq> 0" by simp
  have ff: "find_first_fit ?s 2097152 = Some NULL"
    by (simp add: find_first_fit_def first_malloc_16_fields first_fit_from_skip
        first_fit_from_null NULL_def)
  have m: "j_malloc (page4k MAP_FAILED) ?s 2097152 = Some (0, ?s)"
    using j_malloc_grow [of 2097152 ?s "page4k MAP_FAILED"]
    by (simp add: ff request_space_fst request_space_failed ALIGN_UP_def
        ALIGNMENT_def NULL_def)
  have 3: "j_realloc (page4k MAP_FAILED) ?s 0x70000040 2097152 = Some (NULL, ?s)"
    by (simp add: j_realloc_def Let_def ALIGN_UP_def consts_eval first_malloc_16_fields
        m [unfolded MAP_FAILED_def])
  have 4: "blk_free ?s (- header_size) = 0"
    by (simp add: request_space_def os_alloc_eval Let_def consts_eval page_round_4k)
      (simp add: run_simps)
  have 5: "mmap_result (page4k MAP_FAILED) = MAP_FAILED"
    by simp
  from failed_relocation_leaves_state [OF 1 2 3 4 disjI1, OF 5]
  show ?thesis
    using 1 2 3 4 5 by simp
qed

section \<open>The two statistics functions\<close>

lemma free_bytes_from_chain:
  "chain s cur bs \<Longrightarrow>
   free_bytes_from s cur acc
     = Some (fold (\<lambda>b a. if blk_free s b \<noteq> 0 then a + blk_size s b else a) bs acc)"
proof (induction bs arbitrary: cur acc)
  case Nil
  then show ?case by (subst free_bytes_from.simps) simp
next
  case (Cons b bs)
  from Cons.prems have nn: "b \<noteq> NULL" and cb: "cur = b"
    and ch: "chain s (blk_next s b) bs"
    by auto
  show ?case
    unfolding cb by (subst free_bytes_from.simps) (simp add: nn Cons.IH [OF ch])
qed

text \<open>
  \<^verbatim>\<open>j_heap_bytes\<close> returns the counter and \<^verbatim>\<open>j_free_bytes\<close> only reads: when it
  returns, the state is the one it was called in, and it returns whenever the chain from
  \<^verbatim>\<open>g_head\<close> ends at the null pointer.
\<close>

lemma statistics_leave_state:
  "j_heap_bytes s = (g_total_bytes s, s)"
  "j_free_bytes s = Some (v, s') \<Longrightarrow> s' = s"
  "chain s (g_head s) bs \<Longrightarrow> \<exists>v. j_free_bytes s = Some (v, s)"
proof -
  show "j_heap_bytes s = (g_total_bytes s, s)"
    by (simp add: j_heap_bytes_def)
  show "s' = s" if "j_free_bytes s = Some (v, s')"
    using that by (auto simp add: j_free_bytes_def split: option.splits)
  show "\<exists>v. j_free_bytes s = Some (v, s)" if "chain s (g_head s) bs"
    using free_bytes_from_chain [OF that, of 0] by (simp add: j_free_bytes_def)
qed

section \<open>Requests near the top of the size range\<close>

lemma free_bytes_from_self_loop:
  assumes "cur \<noteq> NULL" and "blk_next s cur = cur"
  shows "free_bytes_from s cur acc = None"
proof (rule ccontr)
  assume "free_bytes_from s cur acc \<noteq> None"
  then obtain y where y: "free_bytes_from s cur acc = Some y" by auto
  have "\<not> (s = s \<and> cur = cur)"
    by (rule free_bytes_from.raw_induct
          [where P = "\<lambda>s' c a y. \<not> (s' = s \<and> c = cur)", OF _ y])
      (use assms in \<open>auto split: if_splits\<close>)
  then show False by simp
qed

text \<open>
  C1 fails on the code.  \<^verbatim>\<open>j_malloc(0xFFFFFFFFFFFFFFE0)\<close> on the empty allocator:
  \<open>header_size + size\<close> wraps to 0, so an arena of the minimum size is mapped; the
  ``trailing free block'' is placed at \<open>blk + header_size + size = blk\<close>, on top of the
  block just created, and \<^verbatim>\<open>blk->next = f\<close> makes the block its own successor.  The
  call returns a non-null pointer, and in the state it leaves the scan of
  \<^verbatim>\<open>j_free_bytes\<close> never reaches the end of the chain.
\<close>

theorem huge_malloc_makes_free_bytes_diverge:
  "\<exists>p s. j_malloc (page4k 0x70000000) init_state (- 32) = Some (p, s)
      \<and> grants_ok (page4k 0x70000000) init_state s
      \<and> p \<noteq> NULL \<and> blk_next s (g_head s) = g_head s \<and> j_free_bytes s = None"
proof -
  define s where "s = snd (request_space (page4k 0x70000000) init_state (- 32))"
  have s: "g_head s = 0x70000020" "blk_next s 0x70000020 = 0x70000020"
    unfolding s_def
    by (simp_all add: request_space_def os_alloc_eval Let_def consts_eval page_round_4k)
      (simp_all add: run_simps)
  have m: "j_malloc (page4k 0x70000000) init_state (- 32) = Some (0x70000040, s)"
    by (simp add: j_malloc_grow find_first_fit_init request_space_fst ALIGN_UP_def
        consts_eval s_def)
  have g: "grants_ok (page4k 0x70000000) init_state s"
    using request_space_mapped [of "page4k 0x70000000" init_state "- 32"]
    by (simp add: s_def grants_ok_def page_ok_4k region_ok_def os_pagesize_4k page_round_4k
        consts_eval)
  have "free_bytes_from s 0x70000020 0 = None"
    by (rule free_bytes_from_self_loop) (simp_all add: s NULL_def)
  then have "j_free_bytes s = None"
    by (simp add: j_free_bytes_def s)
  with m g s show ?thesis
    by (simp add: NULL_def)
qed

text \<open>
  C3 fails on the code.  Allocate 64 bytes and call \<^verbatim>\<open>j_realloc(p, SIZE_MAX)\<close>: the
  size rounds up to 0, the shrink path is taken and \<^verbatim>\<open>split_block(blk, 0)\<close> writes the
  header of a free block at the payload address \<open>p\<close>.  The call returns \<open>p\<close>, and the byte
  at \<open>p + 8\<close> (the low byte of the new header's \<^verbatim>\<open>free\<close> field) has changed from 0 to 1.
\<close>

theorem resize_to_size_max_overwrites_payload:
  "\<exists>p s1 s2. j_malloc (page4k 0x70000000) init_state 64 = Some (p, s1)
      \<and> p \<noteq> NULL \<and> blk_size s1 (p - header_size) = 64
      \<and> j_realloc (page4k 0x70000000) s1 p (- 1) = Some (p, s2)
      \<and> bytes s1 (p + 8) = 0 \<and> bytes s2 (p + 8) = 1"
proof -
  define s1 where "s1 = snd (request_space (page4k 0x70000000) init_state 64)"
  have s1: "blk_size s1 0x70000020 = 64" "blk_next s1 0x70000020 = 0x70000080"
    "bytes s1 0x70000048 = 0"
    unfolding s1_def
    by (simp_all add: request_space_def os_alloc_eval Let_def consts_eval page_round_4k)
      (simp_all add: run_simps store_bytes_def)
  have m: "j_malloc (page4k 0x70000000) init_state 64 = Some (0x70000040, s1)"
    by (simp add: j_malloc_grow find_first_fit_init request_space_fst ALIGN_UP_def
        consts_eval s1_def)
  have r: "j_realloc (page4k 0x70000000) s1 0x70000040 (- 1)
             = Some (0x70000040, split_block s1 0x70000020 0)"
    by (simp add: j_realloc_def Let_def ALIGN_UP_def consts_eval s1)
  have b: "bytes (split_block s1 0x70000020 0) 0x70000048 = 1"
    by (simp add: split_block_def Let_def consts_eval s1 run_simps store_bytes_def)
  show ?thesis
    by (simp add: m r b s1 consts_eval)
qed

text \<open>
  C9 fails on the code.  After \<^verbatim>\<open>j_malloc(0xFFFFFFFFFFFFFFE0)\<close> on the empty
  allocator, a state reached by one public call, \<^verbatim>\<open>j_heap_bytes\<close> returns 1048608 and
  leaves the state alone, but \<^verbatim>\<open>j_free_bytes\<close> does not return a value: the block is
  its own successor and the scan does not end.
\<close>

theorem free_bytes_query_does_not_return:
  "\<exists>c. reachable c \<and> j_free_bytes (fst c) = None
      \<and> j_heap_bytes (fst c) = (1048608, fst c)"
proof -
  define s where "s = snd (request_space (page4k 0x70000000) init_state (- 32))"
  have s: "g_head s = 0x70000020" "blk_next s 0x70000020 = 0x70000020"
    "g_total_bytes s = 1048608"
    unfolding s_def
    by (simp_all add: request_space_def os_alloc_eval Let_def consts_eval page_round_4k)
      (simp_all add: run_simps)
  have m: "j_malloc (page4k 0x70000000) init_state (- 32) = Some (0x70000040, s)"
    by (simp add: j_malloc_grow find_first_fit_init request_space_fst ALIGN_UP_def
        consts_eval s_def)
  have g: "grants_ok (page4k 0x70000000) init_state s"
    using request_space_mapped [of "page4k 0x70000000" init_state "- 32"]
    by (simp add: s_def grants_ok_def page_ok_4k region_ok_def os_pagesize_4k page_round_4k
        consts_eval)
  have "step (init_state, {}) (s, {0x70000040})"
    using step_malloc [OF m g, of "{}"] by simp
  then have r: "reachable (s, {0x70000040})"
    unfolding reachable_def by (rule r_into_rtranclp)
  have "free_bytes_from s 0x70000020 0 = None"
    by (rule free_bytes_from_self_loop) (simp_all add: s NULL_def)
  then have "j_free_bytes s = None"
    by (simp add: j_free_bytes_def s)
  with r s(3) show ?thesis
    by (auto simp add: j_heap_bytes_def intro!: exI [of _ "(s, {0x70000040})"])
qed

section \<open>A block header inside the payload\<close>

text \<open>
  \<^verbatim>\<open>j_malloc(0xFFFFFFFFFFFFFFF8)\<close> on the empty allocator: \<open>header_size + size\<close> wraps
  to 24, an arena of the minimum size is mapped, and the trailing free block is placed
  at \<open>blk + header_size + size = blk + 24\<close>, eight bytes below the payload address \<open>p\<close>
  that the call returns.  Its \<^verbatim>\<open>size\<close> field is the \<^verbatim>\<open>prev\<close> field of the first
  block, and its \<^verbatim>\<open>free\<close>, \<^verbatim>\<open>next\<close> and \<^verbatim>\<open>prev\<close> fields are the bytes
  \<open>p\<close>, \<open>p + 8\<close> and \<open>p + 16\<close> of the payload.
\<close>

lemma load_le_4:
  "load_le 4 m a = ucast (m a) OR push_bit 8 (ucast (m (a + 1)))
      OR push_bit 16 (ucast (m (a + 2))) OR push_bit 24 (ucast (m (a + 3)))"
  by (simp add: eval_nat_numeral or.assoc add.commute)

lemma load_le_8:
  "load_le 8 m a = ucast (m a) OR push_bit 8 (ucast (m (a + 1)))
      OR push_bit 16 (ucast (m (a + 2))) OR push_bit 24 (ucast (m (a + 3)))
      OR push_bit 32 (ucast (m (a + 4))) OR push_bit 40 (ucast (m (a + 5)))
      OR push_bit 48 (ucast (m (a + 6))) OR push_bit 56 (ucast (m (a + 7)))"
  by (simp add: eval_nat_numeral or.assoc add.commute)

lemma memory_view_sel [simp]:
  "g_head (memory_view s) = g_head s"
  "g_tail (memory_view s) = g_tail s"
  "g_free_bytes (memory_view s) = g_free_bytes s"
  "blk_size (memory_view s) b = load_le 8 (bytes s) b"
  "blk_free (memory_view s) b = ucast (load_le 4 (bytes s) (b + 8))"
  "blk_next (memory_view s) b = load_le 8 (bytes s) (b + 16)"
  "blk_prev (memory_view s) b = load_le 8 (bytes s) (b + 24)"
  "mapped (memory_view s) = mapped s"
  by (simp_all add: memory_view_def)

lemma caller_write_sel [simp]:
  "g_head (caller_write a n v s) = g_head s"
  "bytes (caller_write a n v s) = store_bytes a n v (bytes s)"
  "mapped (caller_write a n v s) = mapped s"
  by (simp_all add: caller_write_def)

text \<open>
  Reading back what a header write stored gives the value written: on a field that no
  other store has touched, the memory view and the typed store agree.
\<close>

lemma byte_step:
  "ucast (ucast (x :: 64 word) :: 8 word) OR push_bit 8 (take_bit k (drop_bit 8 x))
     = (take_bit (8 + k) x :: 64 word)"
  by (rule bit_eqI) (auto simp add: bit_simps)

lemma load_le_window:
  assumes "\<And>i. i < n \<Longrightarrow> m (a + of_nat (j + i)) = ucast (drop_bit (8 * (j + i)) v)"
  shows "load_le n m (a + of_nat j) = take_bit (8 * n) (drop_bit (8 * j) v)"
  using assms
proof (induction n arbitrary: j)
  case 0
  show ?case by simp
next
  case (Suc n)
  have "load_le n m (a + of_nat (Suc j)) = take_bit (8 * n) (drop_bit (8 * Suc j) v)"
    by (rule Suc.IH) (use Suc.prems [of "Suc _"] in simp)
  moreover have "m (a + of_nat j) = ucast (drop_bit (8 * j) v)"
    using Suc.prems [of 0] by simp
  ultimately show ?case
    using byte_step [of "drop_bit (8 * j) v" "8 * n"]
    by (simp add: drop_bit_drop_bit ac_simps)
qed

lemma load_store_8: "load_le 8 (store_bytes a 8 v m) a = v"
proof -
  have "load_le 8 (store_bytes a 8 v m) (a + of_nat 0) = take_bit (8 * 8) (drop_bit (8 * 0) v)"
  proof (rule load_le_window)
    fix i :: nat assume i: "i < 8"
    then have "(of_nat i :: 64 word) < 8"
      by (simp add: word_less_nat_alt unat_of_nat)
    moreover have "unat (of_nat i :: 64 word) = i"
      using i by (simp add: unat_of_nat)
    ultimately show "store_bytes a 8 v m (a + of_nat (0 + i)) = ucast (drop_bit (8 * (0 + i)) v)"
      by (simp add: store_bytes_def)
  qed
  then show ?thesis
    by (simp add: take_bit_word_eq_self)
qed

lemma load_store_4: "load_le 4 (store_bytes a 4 v m) a = take_bit 32 v"
proof -
  have "load_le 4 (store_bytes a 4 v m) (a + of_nat 0) = take_bit (8 * 4) (drop_bit (8 * 0) v)"
  proof (rule load_le_window)
    fix i :: nat assume i: "i < 4"
    then have "(of_nat i :: 64 word) < 4"
      by (simp add: word_less_nat_alt unat_of_nat)
    moreover have "unat (of_nat i :: 64 word) = i"
      using i by (simp add: unat_of_nat)
    ultimately show "store_bytes a 4 v m (a + of_nat (0 + i)) = ucast (drop_bit (8 * (0 + i)) v)"
      by (simp add: store_bytes_def)
  qed
  then show ?thesis
    by simp
qed

lemma memory_view_reads_back:
  "blk_size (memory_view (set_size b v s)) b = v"
  "blk_free (memory_view (set_free b w s)) b = w"
  "blk_next (memory_view (set_next b v s)) b = v"
  "blk_prev (memory_view (set_prev b v s)) b = v"
proof -
  show "blk_size (memory_view (set_size b v s)) b = v"
    by (simp add: load_store_8)
  show "blk_next (memory_view (set_next b v s)) b = v"
    by (simp add: load_store_8)
  show "blk_prev (memory_view (set_prev b v s)) b = v"
    by (simp add: load_store_8)
  have "ucast (take_bit 32 (ucast w :: 64 word)) = w"
    by (rule bit_eqI) (auto simp add: bit_simps)
  then show "blk_free (memory_view (set_free b w s)) b = w"
    by (simp add: load_store_4)
qed

text \<open>The memory after \<^verbatim>\<open>j_malloc(0xFFFFFFFFFFFFFFF8)\<close>, read as header fields.\<close>

lemma huge8_bytes:
  "load_le 4 (bytes (snd (request_space (page4k 0x70000000) init_state (- 8)))) 0x70000028 = 0"
  "load_le 8 (bytes (snd (request_space (page4k 0x70000000) init_state (- 8)))) 0x70000030 = 0x70000038"
  "load_le 8 (bytes (snd (request_space (page4k 0x70000000) init_state (- 8)))) 0x70000038 = 0xFFFC8"
  "load_le 4 (bytes (snd (request_space (page4k 0x70000000) init_state (- 8)))) 0x70000040 = 1"
  "load_le 8 (bytes (snd (request_space (page4k 0x70000000) init_state (- 8)))) 0x70000048 = 0"
  by (simp_all add: request_space_def os_alloc_eval Let_def consts_eval page_round_4k)
    (simp_all add: run_simps store_bytes_def load_le_4 load_le_8)



lemma huge8_malloc:
  "j_malloc (page4k 0x70000000) init_state (- 8)
     = Some (0x70000040, snd (request_space (page4k 0x70000000) init_state (- 8)))"
  by (simp add: j_malloc_grow find_first_fit_init request_space_fst ALIGN_UP_def consts_eval)

lemma huge8_grants:
  "grants_ok (page4k 0x70000000) init_state
     (snd (request_space (page4k 0x70000000) init_state (- 8)))"
  using request_space_mapped [of "page4k 0x70000000" init_state "- 8"]
  by (simp add: grants_ok_def page_ok_4k region_ok_def os_pagesize_4k page_round_4k
      consts_eval)

lemma huge8_globals:
  "g_head (snd (request_space (page4k 0x70000000) init_state (- 8))) = 0x70000020"
  "mapped (snd (request_space (page4k 0x70000000) init_state (- 8))) = [(0x70000000, 1052672)]"
  by (simp_all add: request_space_def os_alloc_eval Let_def consts_eval page_round_4k)
    (simp_all add: run_simps)

text \<open>
  C2 fails on the code.  After that call the caller stores into the first 45 bytes of
  its payload: 0 at \<open>p\<close> (the trailing block's free flag), \<open>p + 33\<close> at \<open>p + 8\<close> (its
  \<^verbatim>\<open>next\<close> link), and at \<open>p + 33\<close> a header with size 8 and free flag 1.  The next
  \<^verbatim>\<open>j_malloc(8)\<close>, run on the memory as the program reads it, follows the chain to
  \<open>p + 33\<close> and returns \<open>p + 65\<close>, which is not a multiple of 8.
\<close>

theorem crafted_payload_yields_misaligned_address:
  "\<exists>p s1 q s2.
      j_malloc (page4k 0x70000000) init_state (- 8) = Some (p, s1)
      \<and> p = 0x70000040
      \<and> grants_ok (page4k 0x70000000) init_state s1
      \<and> j_malloc (page4k MAP_FAILED)
            (memory_view (run [caller_write p 4 0, caller_write (p + 8) 8 (p + 33),
                               caller_write (p + 33) 8 8, caller_write (p + 41) 4 1] s1)) 8
          = Some (q, s2)
      \<and> q = p + 65 \<and> unat q mod 8 = 1"
proof -
  define s1 where "s1 = snd (request_space (page4k 0x70000000) init_state (- 8))"
  define s2 where
    "s2 = run [caller_write 0x70000040 4 0, caller_write 0x70000048 8 0x70000061,
               caller_write 0x70000061 8 8, caller_write 0x70000069 4 1] s1"
  have b: "load_le 4 (bytes s2) 0x70000028 = 0"
    "load_le 8 (bytes s2) 0x70000030 = 0x70000038"
    "load_le 4 (bytes s2) 0x70000040 = 0"
    "load_le 8 (bytes s2) 0x70000048 = 0x70000061"
    "load_le 4 (bytes s2) 0x70000069 = 1"
    "load_le 8 (bytes s2) 0x70000061 = 8"
    unfolding s2_def s1_def
    by (simp_all add: request_space_def os_alloc_eval Let_def consts_eval page_round_4k)
      (simp_all add: run_simps store_bytes_def load_le_4 load_le_8)
  have g: "g_head s2 = 0x70000020"
    by (simp add: s2_def s1_def run_simps huge8_globals)
  have ff: "find_first_fit (memory_view s2) 8 = Some 0x70000061"
    by (simp add: find_first_fit_def g first_fit_from_skip first_fit_from_hit b)
  have m: "\<exists>s3. j_malloc (page4k MAP_FAILED) (memory_view s2) 8 = Some (0x70000081, s3)"
    by (simp add: j_malloc_def Let_def ALIGN_UP_def consts_eval ff [unfolded consts_eval] b)
  then obtain s3 where "j_malloc (page4k MAP_FAILED) (memory_view s2) 8 = Some (0x70000081, s3)"
    by blast
  moreover have "unat (0x70000081 :: addr) mod 8 = 1"
    by simp
  ultimately show ?thesis
    using huge8_malloc huge8_grants by (simp add: s1_def s2_def)
qed

text \<open>
  C7 fails on the code.  After the same call, \<^verbatim>\<open>j_free(p)\<close> does not return at the
  free-flag test (the flag of the block is 0), merges the trailing block (the successor,
  whose flag is 1 and whose \<^verbatim>\<open>next\<close> is null; the merge stores nothing at
  \<open>blk + 24\<close>), and then evaluates \<^verbatim>\<open>blk->prev->free\<close>.  In memory \<^verbatim>\<open>blk->prev\<close> is
  \<open>0xFFFC8\<close>, the size written for the trailing block, where the typed store still
  holds the null pointer; the address \<open>0xFFFC8 + 8\<close> it reads lies in no region that
  \<^verbatim>\<open>mmap\<close> has granted.
\<close>

theorem release_after_huge_request_follows_overwritten_link:
  "\<exists>p s. j_malloc (page4k 0x70000000) init_state (- 8) = Some (p, s)
      \<and> p \<noteq> NULL
      \<and> grants_ok (page4k 0x70000000) init_state s
      \<and> blk_free (memory_view s) (p - header_size) = 0
      \<and> blk_next (memory_view s) (p - header_size) = p - 8
      \<and> blk_free (memory_view s) (p - 8) = 1
      \<and> blk_next (memory_view s) (p - 8) = NULL
      \<and> blk_prev (memory_view s) (p - header_size) = 0xFFFC8
      \<and> blk_prev s (p - header_size) = NULL
      \<and> unat (0xFFFC8 + 8 :: addr) \<notin> covered (mapped s)"
proof -
  define s where "s = snd (request_space (page4k 0x70000000) init_state (- 8))"
  have t: "blk_prev s 0x70000020 = 0"
    unfolding s_def
    by (simp add: request_space_def os_alloc_eval Let_def consts_eval page_round_4k)
      (simp add: run_simps)
  have c: "unat (0xFFFC8 + 8 :: addr) \<notin> covered (mapped s)"
    by (simp add: s_def huge8_globals covered_def)
  show ?thesis
    using huge8_malloc huge8_grants huge8_bytes t c
    by (simp add: s_def consts_eval)
qed

end
